theory Spec2Isabelle
  imports Main "HOL-Library.Word"
begin

unbundle bit_operations_syntax

section \<open>Python values, exceptions and the outside world\<close>

text \<open>
  The program is a linear pipeline of Python functions in \<^verbatim>\<open>main.py\<close>. Every exception
  the source can raise is a value of \<open>error\<close>; a function that may raise returns
  \<open>error + 'a\<close>, and a function with effects takes the \<open>world\<close> and returns the new one.
  A string is the list of the bytes of its UTF-8 encoding, so ASCII text is one \<open>char\<close>
  per character. Where a library call is given an input outside the part of its behaviour
  that is modelled here, the model returns \<open>Unmodelled\<close> instead of guessing.
\<close>

datatype error =
    HTTPStatusError int string
  | TransportError
  | AttributeError
  | ValueError
  | TypeError
  | KeyError
  | IndexError
  | JSONDecodeError
  | ValidationError
  | IllegalMonthError
  | FileExistsError
  | FileNotFoundError
  | NotADirectoryError
  | IsADirectoryError
  | Unmodelled

text \<open>Values produced by \<^verbatim>\<open>json.loads\<close>. A number with a fraction or an exponent keeps
  its lexeme: no property below reads its value.\<close>

datatype json =
    JNull
  | JBool bool
  | JInt int
  | JFloat string
  | JString string
  | JArray "json list"
  | JObject "(string \<times> json) list"

text \<open>\<^verbatim>\<open>datetime.date\<close> (year, month, day), \<^verbatim>\<open>datetime.time\<close> (hour, minute, second,
  microsecond) and \<^verbatim>\<open>datetime.datetime\<close>. Python's integers are \<open>int\<close>.\<close>

datatype pydate = Date int int int
datatype pytime = Time int int int int
datatype pydatetime = Datetime pydate pytime

text \<open>\<^verbatim>\<open>pathlib.Path\<close>: absolute or relative, and its parts. A file system maps a path to
  a directory or to a file with its stored text.\<close>

datatype path = Path bool "string list"

datatype node = Dir | File string

datatype http_outcome = Response int string | NetworkFailure

text \<open>The world outside the program: the file system, the two clocks, the source of
  random bytes with the number of draws made so far, the web server and the completion
  service (whose answer may depend on how many requests came before), and what the run
  has done so far: the GET requests, the POST requests, the files written and the
  lines logged.\<close>

type_synonym headers = "(string \<times> string) list"

record world =
  fs :: "path \<Rightarrow> node option"
  local_now :: pydatetime
  utc_now :: pydatetime
  urandom :: "nat \<Rightarrow> 128 word"
  drawn :: nat
  get_server :: "string \<Rightarrow> headers \<Rightarrow> http_outcome"
  post_server :: "nat \<Rightarrow> string \<Rightarrow> headers \<Rightarrow> json \<Rightarrow> http_outcome"
  get_log :: "(string \<times> headers) list"
  post_log :: "(string \<times> headers \<times> json) list"
  write_log :: "(path \<times> string) list"
  logged :: "string list"

section \<open>Strings\<close>

definition CR :: char where "CR = CHR 0x0D"
definition LF :: char where "LF = CHR 0x0A"
definition CRLF :: string where "CRLF = [CHR 0x0D, CHR 0x0A]"

text \<open>\<^verbatim>\<open>sep.join(xs)\<close>.\<close>

fun join :: "string \<Rightarrow> string list \<Rightarrow> string" where
  "join sep [] = []"
| "join sep [x] = x"
| "join sep (x # y # ys) = x @ sep @ join sep (y # ys)"

text \<open>\<^verbatim>\<open>s.replace(old, new)\<close> for a one-character \<open>old\<close>.\<close>

definition replace :: "char \<Rightarrow> string \<Rightarrow> string \<Rightarrow> string" where
  "replace old new s = concat (map (\<lambda>c. if c = old then new else [c]) s)"

text \<open>Decimal and hexadecimal digits, \<^verbatim>\<open>str(n)\<close> for an integer and \<^verbatim>\<open>s.zfill(k)\<close>.\<close>

definition digit_char :: "nat \<Rightarrow> char" where
  "digit_char n = ''0123456789abcdef'' ! (n mod 16)"

function digits_of :: "int \<Rightarrow> string" where
  "digits_of n =
     (if n < 10 then [digit_char (nat n)]
      else digits_of (n div 10) @ [digit_char (nat (n mod 10))])"
  by pat_completeness auto
termination
  by (relation "measure nat") auto

declare digits_of.simps [simp del]

definition str_int :: "int \<Rightarrow> string" where
  "str_int n = (if n < 0 then ''-'' @ digits_of (- n) else digits_of n)"

definition zfill :: "nat \<Rightarrow> string \<Rightarrow> string" where
  "zfill k s = replicate (k - length s) (CHR ''0'') @ s"

section \<open>Dates and identifiers\<close>

text \<open>\<^verbatim>\<open>strftime('%Y%m%dT%H%M%S')\<close> as CPython gives it on Linux, the platform modelled
  here: \<^verbatim>\<open>%Y\<close> is the year in decimal with no padding (a year below 1000 has fewer than
  four digits; other C libraries pad it), every other field has two digits.\<close>

fun strftime_basic :: "pydatetime \<Rightarrow> string" where
  "strftime_basic (Datetime (Date y m d) (Time hh mm ss us)) =
     str_int y @ zfill 2 (str_int m) @ zfill 2 (str_int d) @ ''T'' @
     zfill 2 (str_int hh) @ zfill 2 (str_int mm) @ zfill 2 (str_int ss)"

text \<open>\<^verbatim>\<open>datetime.now()\<close> with no argument is the local wall clock, with no time zone
  attached; \<^verbatim>\<open>datetime.now(timezone.utc)\<close> would be \<open>utc_now\<close>.\<close>

definition datetime_now :: "world \<Rightarrow> pydatetime" where
  "datetime_now w = local_now w"

definition combine :: "pydate \<Rightarrow> pytime \<Rightarrow> pydatetime" where
  "combine d t = Datetime d t"

text \<open>\<^verbatim>\<open>uuid.uuid4()\<close> draws 16 random bytes and sets the version and variant bits;
  \<^verbatim>\<open>str\<close> of it is 32 lower-case hexadecimal digits in groups 8-4-4-4-12.\<close>

definition uuid4 :: "world \<Rightarrow> 128 word \<times> world" where
  "uuid4 w =
     (let r = urandom w (drawn w);
          r1 = (r AND NOT (push_bit 48 0xC000)) OR push_bit 48 0x8000;
          r2 = (r1 AND NOT (push_bit 64 0xF000)) OR push_bit 76 4
      in (r2, w\<lparr>drawn := Suc (drawn w)\<rparr>))"

definition hex32 :: "128 word \<Rightarrow> string" where
  "hex32 u = map (\<lambda>i. digit_char (unat (drop_bit (4 * (31 - i)) u AND 0xF))) [0..<32]"

definition str_uuid :: "128 word \<Rightarrow> string" where
  "str_uuid u =
     (let h = hex32 u
      in take 8 h @ ''-'' @ take 4 (drop 8 h) @ ''-'' @ take 4 (drop 12 h) @ ''-'' @
         take 4 (drop 16 h) @ ''-'' @ drop 20 h)"

section \<open>Events and the calendar serializer\<close>

record Event =
  date :: pydate
  title :: string
  description :: "string option"
  start_time :: pytime
  end_time :: pytime

definition ics_header :: "string list" where
  "ics_header =
     [''BEGIN:VCALENDAR'', ''VERSION:2.0'', ''PRODID:-//MyPythonScript//EN'',
      ''CALSCALE:GREGORIAN'']"

definition ics_footer :: "string list" where
  "ics_footer = [''END:VCALENDAR'']"

text \<open>The nine lines of one \<^verbatim>\<open>VEVENT\<close> block, from the event, the timestamp of the call
  and the identifier drawn for it.\<close>

definition event_entry :: "string \<Rightarrow> 128 word \<Rightarrow> Event \<Rightarrow> string list" where
  "event_entry creation_timestamp uid event =
     (let start_datetime = combine (date event) (start_time event);
          end_datetime = combine (date event) (end_time event);
          descr = replace LF [CHR 0x5C, CHR ''n'']
                    (case description event of None \<Rightarrow> [] | Some d \<Rightarrow> d)
      in [''BEGIN:VEVENT'',
          ''UID:'' @ str_uuid uid,
          ''DTSTAMP:'' @ creation_timestamp,
          ''DTSTART:'' @ strftime_basic start_datetime,
          ''DTEND:'' @ strftime_basic end_datetime,
          ''SUMMARY:'' @ title event,
          ''DESCRIPTION:'' @ descr,
          ''LOCATION:Leeds Kirkgate Market, Kirkgate, Leeds LS2 7HY, UK'',
          ''END:VEVENT''])"

text \<open>The \<^verbatim>\<open>for event in events\<close> loop: one identifier is drawn per event, in order.\<close>

fun event_entries :: "string \<Rightarrow> Event list \<Rightarrow> world \<Rightarrow> string list \<times> world" where
  "event_entries creation_timestamp [] w = ([], w)"
| "event_entries creation_timestamp (event # events) w =
     (let (uid, w1) = uuid4 w;
          (rest, w2) = event_entries creation_timestamp events w1
      in (event_entry creation_timestamp uid event @ rest, w2))"

definition create_ics_from_events :: "Event list \<Rightarrow> world \<Rightarrow> string \<times> world" where
  "create_ics_from_events events w =
     (let creation_timestamp = strftime_basic (datetime_now w) @ ''Z'';
          (entries, w') = event_entries creation_timestamp events w;
          full_ics_list = ics_header @ entries @ ics_footer
      in (join CRLF full_ics_list, w'))"

section \<open>Files\<close>

text \<open>\<^verbatim>\<open>a / b\<close> on paths, \<^verbatim>\<open>p.parent\<close>, and what is found at a path: the empty relative
  path is the working directory, the empty absolute path the root.\<close>

definition joinpath :: "path \<Rightarrow> path \<Rightarrow> path" where
  "joinpath p q =
     (case q of Path qa qs \<Rightarrow>
        if qa then q else (case p of Path a ps \<Rightarrow> Path a (ps @ qs)))"

definition parent :: "path \<Rightarrow> path" where
  "parent p = (case p of Path a ps \<Rightarrow> Path a (butlast ps))"

definition node_at :: "(path \<Rightarrow> node option) \<Rightarrow> path \<Rightarrow> node option" where
  "node_at f p = (case p of Path a ps \<Rightarrow> if ps = [] then Some Dir else f p)"

definition exists_path :: "path \<Rightarrow> world \<Rightarrow> bool" where
  "exists_path p w = (node_at (fs w) p \<noteq> None)"

text \<open>\<^verbatim>\<open>read_text\<close> opens the file in text mode with the default \<^verbatim>\<open>newline=None\<close>:
  every \<^verbatim>\<open>\r\n\<close> and every lone \<^verbatim>\<open>\r\<close> of the file is returned as \<^verbatim>\<open>\n\<close>.\<close>

fun universal_newlines :: "string \<Rightarrow> string" where
  "universal_newlines [] = []"
| "universal_newlines [c] = [if c = CHR 0x0D then CHR 0x0A else c]"
| "universal_newlines (c # d # cs) =
     (if c = CHR 0x0D
      then (if d = CHR 0x0A then CHR 0x0A # universal_newlines cs
            else CHR 0x0A # universal_newlines (d # cs))
      else c # universal_newlines (d # cs))"

definition read_text :: "path \<Rightarrow> world \<Rightarrow> error + string" where
  "read_text p w =
     (case node_at (fs w) p of
        None \<Rightarrow> Inl FileNotFoundError
      | Some Dir \<Rightarrow> Inl IsADirectoryError
      | Some (File s) \<Rightarrow> Inr (universal_newlines s))"

text \<open>\<^verbatim>\<open>write_text\<close> replaces the whole file. On output \<^verbatim>\<open>\n\<close> becomes the platform's
  line separator, which is \<^verbatim>\<open>\n\<close> itself on POSIX, the platform modelled here.\<close>

definition write_text :: "path \<Rightarrow> string \<Rightarrow> world \<Rightarrow> (error + unit) \<times> world" where
  "write_text p s w =
     (case node_at (fs w) p of
        Some Dir \<Rightarrow> (Inl IsADirectoryError, w)
      | _ \<Rightarrow>
        (case node_at (fs w) (parent p) of
           None \<Rightarrow> (Inl FileNotFoundError, w)
         | Some (File t) \<Rightarrow> (Inl NotADirectoryError, w)
         | Some Dir \<Rightarrow>
             (Inr (), w\<lparr>fs := (fs w)(p \<mapsto> File s), write_log := write_log w @ [(p, s)]\<rparr>)))"

text \<open>\<^verbatim>\<open>os.mkdir\<close>, and \<^verbatim>\<open>Path.mkdir(parents=True, exist_ok=True)\<close> on the reversed
  parts of the path: a missing parent is created first, an existing directory is
  accepted, anything else in the way raises.\<close>

definition os_mkdir :: "path \<Rightarrow> (path \<Rightarrow> node option) \<Rightarrow> error + (path \<Rightarrow> node option)" where
  "os_mkdir p f =
     (if node_at f p \<noteq> None then Inl FileExistsError
      else (case node_at f (parent p) of
              None \<Rightarrow> Inl FileNotFoundError
            | Some (File t) \<Rightarrow> Inl NotADirectoryError
            | Some Dir \<Rightarrow> Inr (f(p \<mapsto> Dir))))"

fun mkdir_rev :: "bool \<Rightarrow> string list \<Rightarrow> (path \<Rightarrow> node option) \<Rightarrow> error + (path \<Rightarrow> node option)" where
  "mkdir_rev a [] f = Inr f"
| "mkdir_rev a (x # rest) f =
     (let p = Path a (rev (x # rest))
      in case os_mkdir p f of
           Inr f' \<Rightarrow> Inr f'
         | Inl e \<Rightarrow>
           if e = FileNotFoundError
           then (case mkdir_rev a rest f of
                   Inl e' \<Rightarrow> Inl e'
                 | Inr f1 \<Rightarrow>
                   (case os_mkdir p f1 of
                      Inr f2 \<Rightarrow> Inr f2
                    | Inl e2 \<Rightarrow>
                      if e2 \<noteq> FileNotFoundError \<and> node_at f1 p = Some Dir then Inr f1
                      else Inl e2))
           else if node_at f p = Some Dir then Inr f else Inl e)"

definition mkdir :: "path \<Rightarrow> world \<Rightarrow> (error + unit) \<times> world" where
  "mkdir p w =
     (case p of Path a ps \<Rightarrow>
        (case mkdir_rev a (rev ps) (fs w) of
           Inl e \<Rightarrow> (Inl e, w)
         | Inr f \<Rightarrow> (Inr (), w\<lparr>fs := f\<rparr>)))"

definition file_content_matches_existing :: "path \<Rightarrow> string \<Rightarrow> world \<Rightarrow> error + bool" where
  "file_content_matches_existing file_path content w =
     (if \<not> exists_path file_path w then Inr False
      else (case read_text file_path w of
              Inl e \<Rightarrow> Inl e
            | Inr existing_content \<Rightarrow> Inr (existing_content = content)))"

section \<open>Fetching the page and extracting the table\<close>

text \<open>The message of \<^verbatim>\<open>HTTPStatusError(status_code, response_text)\<close> from
  \<^verbatim>\<open>exceptions.py\<close>; the exception itself is the constructor \<open>HTTPStatusError\<close> with the
  status code and the response text.\<close>

definition http_status_error_message :: "int \<Rightarrow> string \<Rightarrow> string" where
  "http_status_error_message status_code response_text =
     ''HTTP Status Error: '' @ str_int status_code @ ''.'' @
     (if response_text = [] then [] else '' '' @ response_text)"

definition is_success :: "int \<Rightarrow> bool" where
  "is_success status = (200 \<le> status \<and> status \<le> 299)"

text \<open>\<^verbatim>\<open>if user_agent:\<close> is false for \<^verbatim>\<open>None\<close> and for the empty string. The request is
  logged with the headers the program passes; \<^verbatim>\<open>raise_for_status\<close> raises for every
  status outside 200..299.\<close>

definition get_page_html :: "string \<Rightarrow> string option \<Rightarrow> world \<Rightarrow> (error + string) \<times> world" where
  "get_page_html url user_agent w =
     (let headers = (case user_agent of
                       None \<Rightarrow> []
                     | Some ua \<Rightarrow> if ua = [] then [] else [(''User-Agent'', ua)]);
          w1 = w\<lparr>get_log := get_log w @ [(url, headers)]\<rparr>
      in case get_server w url headers of
           NetworkFailure \<Rightarrow> (Inl TransportError, w1)
         | Response status body \<Rightarrow>
             if is_success status then (Inr body, w1)
             else (Inl (HTTPStatusError status body), w1))"

text \<open>A parsed document is a list of nodes: tags with their attributes and children,
  texts and comments. The parser itself (\<^verbatim>\<open>BeautifulSoup(html, "html.parser")\<close>) is a
  library and stays a parameter of the functions that call it; what tree it builds for a
  page is its business (it replaces, for one, a text that is only white space and holds
  a line break by a single line feed).\<close>

datatype html =
    Tag string "(string \<times> string) list" "html list"
  | NavigableString string
  | Comment string

text \<open>\<^verbatim>\<open>x.find(name)\<close>: the first tag of that name among the descendants, in document
  order, or \<^verbatim>\<open>None\<close>.\<close>

fun find_tag :: "string \<Rightarrow> html list \<Rightarrow> html option" where
  "find_tag name [] = None"
| "find_tag name (NavigableString s # rest) = find_tag name rest"
| "find_tag name (Comment s # rest) = find_tag name rest"
| "find_tag name (Tag n attrs cs # rest) =
     (if n = name then Some (Tag n attrs cs)
      else (case find_tag name cs of
              Some t \<Rightarrow> Some t
            | None \<Rightarrow> find_tag name rest))"

text \<open>\<^verbatim>\<open>str(tag)\<close> with the default formatter: in a text \<^verbatim>\<open>&\<close>, \<^verbatim>\<open><\<close> and \<^verbatim>\<open>>\<close> are
  written as entities, a comment is written as it is between \<^verbatim>\<open><!--\<close> and \<^verbatim>\<open>-->\<close>, an
  attribute value is quoted, a void element without children closes itself.\<close>

definition substitute_xml :: "string \<Rightarrow> string" where
  "substitute_xml s =
     concat (map (\<lambda>c. if c = CHR ''&'' then ''&amp;''
                        else if c = CHR ''<'' then ''&lt;''
                        else if c = CHR ''>'' then ''&gt;''
                        else [c]) s)"

definition quoted_attribute_value :: "string \<Rightarrow> string" where
  "quoted_attribute_value v =
     (if CHR 0x22 \<in> set v
      then (if CHR 0x27 \<in> set v
            then [CHR 0x22] @ replace (CHR 0x22) ''&quot;'' v @ [CHR 0x22]
            else [CHR 0x27] @ v @ [CHR 0x27])
      else [CHR 0x22] @ v @ [CHR 0x22])"

definition void_elements :: "string list" where
  "void_elements =
     [''area'', ''base'', ''br'', ''col'', ''embed'', ''hr'', ''img'', ''input'', ''keygen'',
      ''link'', ''menuitem'', ''meta'', ''param'', ''source'', ''track'', ''wbr'',
      ''basefont'', ''bgsound'', ''command'', ''frame'', ''image'', ''isindex'', ''nextid'',
      ''spacer'']"

fun decode :: "html \<Rightarrow> string" where
  "decode (NavigableString s) = substitute_xml s"
| "decode (Comment s) = ''<!--'' @ s @ ''-->''"
| "decode (Tag n attrs cs) =
     ''<'' @ n @
     concat (map (\<lambda>(k, v). '' '' @ k @ ''='' @ quoted_attribute_value (substitute_xml v)) attrs) @
     (if cs = [] \<and> n \<in> set void_elements then ''/>''
      else ''>'' @ concat (map decode cs) @ ''</'' @ n @ ''>'')"

text \<open>\<^verbatim>\<open>str(soup.find("main").find("table"))\<close>: \<^verbatim>\<open>.find\<close> on \<^verbatim>\<open>None\<close> raises
  \<^verbatim>\<open>AttributeError\<close>, and \<^verbatim>\<open>str(None)\<close> is the four characters \<^verbatim>\<open>None\<close>. (\<open>find_tag\<close>
  only ever returns a tag, so the last case is never taken.)\<close>

definition find_html_events_table :: "(string \<Rightarrow> html list) \<Rightarrow> string \<Rightarrow> error + string" where
  "find_html_events_table BeautifulSoup page =
     (let soup = BeautifulSoup page
      in case find_tag ''main'' soup of
           None \<Rightarrow> Inl AttributeError
         | Some (Tag n attrs cs) \<Rightarrow>
             (case find_tag ''table'' cs of
                None \<Rightarrow> Inr ''None''
              | Some t \<Rightarrow> Inr (decode t))
         | Some other \<Rightarrow> Inl AttributeError)"

section \<open>Parsing numbers and JSON\<close>

text \<open>A short-circuiting sequencing operator for results.\<close>

definition and_then :: "error + 'a \<Rightarrow> ('a \<Rightarrow> error + 'b) \<Rightarrow> error + 'b" where
  "and_then r f = (case r of Inl e \<Rightarrow> Inl e | Inr x \<Rightarrow> f x)"

definition is_digit :: "char \<Rightarrow> bool" where
  "is_digit c = (c \<in> set ''0123456789'')"

definition digit_val :: "char \<Rightarrow> int" where
  "digit_val c = of_char c - 48"

definition int_of_digits :: "string \<Rightarrow> int" where
  "int_of_digits ds = foldl (\<lambda>a c. 10 * a + digit_val c) 0 ds"

definition starts_with :: "string \<Rightarrow> string \<Rightarrow> bool" where
  "starts_with p s = (take (length p) s = p)"

text \<open>\<^verbatim>\<open>int(s)\<close> for a string, base 10: ASCII white space is stripped at both ends, one sign
  is allowed, single underscores may separate digits, and more than 4300 digits are
  refused (the interpreter's default limit). A string with a byte outside ASCII is not
  modelled: Python also accepts other Unicode spaces and digits there.\<close>

definition is_ascii_space :: "char \<Rightarrow> bool" where
  "is_ascii_space c = (c \<in> set [CHR 0x09, CHR 0x0A, CHR 0x0B, CHR 0x0C, CHR 0x0D, CHR 0x20])"

definition strip :: "string \<Rightarrow> string" where
  "strip s = rev (dropWhile is_ascii_space (rev (dropWhile is_ascii_space s)))"

fun digits_ok :: "string \<Rightarrow> bool" where
  "digits_ok [] = False"
| "digits_ok [c] = is_digit c"
| "digits_ok (c # d # cs) =
     (is_digit c \<and> (if d = CHR ''_'' then digits_ok cs else digits_ok (d # cs)))"

definition int_of_str :: "string \<Rightarrow> error + int" where
  "int_of_str s =
     (if list_ex (\<lambda>c. (128::int) \<le> of_char c) s then Inl Unmodelled
      else
        let t = strip s;
            neg = starts_with ''-'' t;
            body = (if starts_with ''-'' t \<or> starts_with ''+'' t then tl t else t);
            ds = filter is_digit body
        in if digits_ok body
           then (if 4300 < int (length ds) then Inl ValueError
                 else Inr (if neg then - int_of_digits ds else int_of_digits ds))
           else Inl ValueError)"

text \<open>\<^verbatim>\<open>json.loads\<close>. White space is space, tab, line feed and carriage return. A string
  may not contain a raw control character; \<^verbatim>\<open>\uXXXX\<close> escapes are written out in UTF-8,
  a surrogate pair as one code point (a lone surrogate has no UTF-8 form and is not
  modelled).\<close>

fun skip_ws :: "string \<Rightarrow> string" where
  "skip_ws [] = []"
| "skip_ws (c # cs) =
     (if c \<in> set [CHR 0x20, CHR 0x09, CHR 0x0A, CHR 0x0D] then skip_ws cs else c # cs)"

definition hex_val :: "char \<Rightarrow> int option" where
  "hex_val c =
     (let n = (of_char c :: int)
      in if 48 \<le> n \<and> n \<le> 57 then Some (n - 48)
         else if 97 \<le> n \<and> n \<le> 102 then Some (n - 87)
         else if 65 \<le> n \<and> n \<le> 70 then Some (n - 55)
         else None)"

definition hex4 :: "string \<Rightarrow> int option" where
  "hex4 r =
     (if length r < 4 then None
      else if list_all (\<lambda>c. hex_val c \<noteq> None) (take 4 r)
      then Some (foldl (\<lambda>a c. 16 * a + the (hex_val c)) 0 (take 4 r))
      else None)"

definition utf8_encode :: "int \<Rightarrow> string" where
  "utf8_encode cp =
     (if cp < 0x80 then [char_of cp]
      else if cp < 0x800 then [char_of (0xC0 + cp div 64), char_of (0x80 + cp mod 64)]
      else if cp < 0x10000
      then [char_of (0xE0 + cp div 4096), char_of (0x80 + (cp div 64) mod 64),
            char_of (0x80 + cp mod 64)]
      else [char_of (0xF0 + cp div 262144), char_of (0x80 + (cp div 4096) mod 64),
            char_of (0x80 + (cp div 64) mod 64), char_of (0x80 + cp mod 64)])"

definition unescape :: "char \<Rightarrow> char option" where
  "unescape e =
     (if e = CHR 0x22 then Some (CHR 0x22)
      else if e = CHR 0x5C then Some (CHR 0x5C)
      else if e = CHR ''/'' then Some (CHR ''/'')
      else if e = CHR ''b'' then Some (CHR 0x08)
      else if e = CHR ''f'' then Some (CHR 0x0C)
      else if e = CHR ''n'' then Some (CHR 0x0A)
      else if e = CHR ''r'' then Some (CHR 0x0D)
      else if e = CHR ''t'' then Some (CHR 0x09)
      else None)"

definition prepend :: "string \<Rightarrow> error + string \<times> string \<Rightarrow> error + string \<times> string" where
  "prepend p r = (case r of Inl e \<Rightarrow> Inl e | Inr (s, rest) \<Rightarrow> Inr (p @ s, rest))"

text \<open>The characters of a string after its opening quote, up to the closing quote; the
  result is the string and the input that follows it.\<close>

fun scanstring :: "string \<Rightarrow> error + string \<times> string" where
  "scanstring [] = Inl JSONDecodeError"
| "scanstring (c # cs) =
     (if c = CHR 0x22 then Inr ([], cs)
      else if c = CHR 0x5C
      then (case cs of
              [] \<Rightarrow> Inl JSONDecodeError
            | e # r \<Rightarrow>
                if e = CHR ''u''
                then (case hex4 r of
                        None \<Rightarrow> Inl JSONDecodeError
                      | Some hi \<Rightarrow>
                          if 0xD800 \<le> hi \<and> hi \<le> 0xDBFF
                          then (if take 2 (drop 4 r) = [CHR 0x5C, CHR ''u'']
                                then (case hex4 (drop 6 r) of
                                        None \<Rightarrow> Inl JSONDecodeError
                                      | Some lo \<Rightarrow>
                                          if 0xDC00 \<le> lo \<and> lo \<le> 0xDFFF
                                          then prepend
                                                 (utf8_encode (0x10000 + (hi - 0xD800) * 0x400 + (lo - 0xDC00)))
                                                 (scanstring (drop 10 r))
                                          else Inl Unmodelled)
                                else Inl Unmodelled)
                          else if 0xDC00 \<le> hi \<and> hi \<le> 0xDFFF then Inl Unmodelled
                          else prepend (utf8_encode hi) (scanstring (drop 4 r)))
                else (case unescape e of
                        None \<Rightarrow> Inl JSONDecodeError
                      | Some ch \<Rightarrow> prepend [ch] (scanstring r)))
      else if (of_char c :: int) < 0x20 then Inl JSONDecodeError
      else prepend [c] (scanstring cs))"

text \<open>A number: \<^verbatim>\<open>-?(0|[1-9][0-9]*)(\.[0-9]+)?([eE][-+]?[0-9]+)?\<close>, as much of it as
  matches. Without fraction and exponent it is an integer (with the same limit of 4300
  digits as \<^verbatim>\<open>int\<close>).\<close>

definition parse_number :: "string \<Rightarrow> error + json \<times> string" where
  "parse_number cs =
     (let neg = starts_with ''-'' cs;
          r0 = (if neg then tl cs else cs)
      in if r0 = [] then Inl JSONDecodeError
         else if \<not> is_digit (hd r0) then Inl JSONDecodeError
         else
           let ip = (if hd r0 = CHR ''0'' then ''0'' else takeWhile is_digit r0);
               r1 = drop (length ip) r0;
               fd = (if starts_with ''.'' r1 then takeWhile is_digit (tl r1) else []);
               frac = (if fd = [] then [] else ''.'' @ fd);
               r2 = drop (length frac) r1;
               r3 = (if starts_with ''e'' r2 \<or> starts_with ''E'' r2 then tl r2 else []);
               sg = (if starts_with ''+'' r3 \<or> starts_with ''-'' r3 then take 1 r3 else []);
               ed = takeWhile is_digit (drop (length sg) r3);
               ex = (if ed = [] then [] else take 1 r2 @ sg @ ed);
               r4 = drop (length ex) r2
           in if frac = [] \<and> ex = []
              then (if 4300 < int (length ip) then Inl ValueError
                    else Inr (JInt (if neg then - int_of_digits ip else int_of_digits ip), r4))
              else Inr (JFloat ((if neg then ''-'' else []) @ ip @ frac @ ex), r4))"

text \<open>Values, the elements of an array after its opening bracket, and the members of an
  object after its opening brace. The first argument bounds the depth of the calls; a
  bound of twice the length of the input is never used up, since every second call
  consumes a character.\<close>

fun parse_value :: "nat \<Rightarrow> string \<Rightarrow> error + json \<times> string"
  and parse_elements :: "nat \<Rightarrow> string \<Rightarrow> error + json list \<times> string"
  and parse_members :: "nat \<Rightarrow> string \<Rightarrow> error + (string \<times> json) list \<times> string"
where
  "parse_value 0 cs = Inl Unmodelled"
| "parse_value (Suc n) cs =
     (if cs = [] then Inl JSONDecodeError
      else if hd cs = CHR 0x22
      then (case scanstring (tl cs) of
              Inl e \<Rightarrow> Inl e
            | Inr (s, r) \<Rightarrow> Inr (JString s, r))
      else if hd cs = CHR ''[''
      then (let r = skip_ws (tl cs)
            in if starts_with '']'' r then Inr (JArray [], tl r)
               else (case parse_elements n r of
                       Inl e \<Rightarrow> Inl e
                     | Inr (vs, r') \<Rightarrow> Inr (JArray vs, r')))
      else if hd cs = CHR ''{''
      then (let r = skip_ws (tl cs)
            in if starts_with ''}'' r then Inr (JObject [], tl r)
               else (case parse_members n r of
                       Inl e \<Rightarrow> Inl e
                     | Inr (kvs, r') \<Rightarrow> Inr (JObject kvs, r')))
      else if starts_with ''null'' cs then Inr (JNull, drop 4 cs)
      else if starts_with ''true'' cs then Inr (JBool True, drop 4 cs)
      else if starts_with ''false'' cs then Inr (JBool False, drop 5 cs)
      else if starts_with ''NaN'' cs then Inr (JFloat ''NaN'', drop 3 cs)
      else if starts_with ''Infinity'' cs then Inr (JFloat ''Infinity'', drop 8 cs)
      else if starts_with ''-Infinity'' cs then Inr (JFloat ''-Infinity'', drop 9 cs)
      else parse_number cs)"
| "parse_elements 0 cs = Inl Unmodelled"
| "parse_elements (Suc n) cs =
     (case parse_value n cs of
        Inl e \<Rightarrow> Inl e
      | Inr (v, r) \<Rightarrow>
          (let r1 = skip_ws r
           in if starts_with '']'' r1 then Inr ([v], tl r1)
              else if starts_with '','' r1
              then (case parse_elements n (skip_ws (tl r1)) of
                      Inl e \<Rightarrow> Inl e
                    | Inr (vs, r2) \<Rightarrow> Inr (v # vs, r2))
              else Inl JSONDecodeError))"
| "parse_members 0 cs = Inl Unmodelled"
| "parse_members (Suc n) cs =
     (if \<not> starts_with [CHR 0x22] cs then Inl JSONDecodeError
      else (case scanstring (tl cs) of
              Inl e \<Rightarrow> Inl e
            | Inr (k, r) \<Rightarrow>
                (let r1 = skip_ws r
                 in if \<not> starts_with '':'' r1 then Inl JSONDecodeError
                    else (case parse_value n (skip_ws (tl r1)) of
                            Inl e \<Rightarrow> Inl e
                          | Inr (v, r2) \<Rightarrow>
                              (let r3 = skip_ws r2
                               in if starts_with ''}'' r3 then Inr ([(k, v)], tl r3)
                                  else if starts_with '','' r3
                                  then (case parse_members n (skip_ws (tl r3)) of
                                          Inl e \<Rightarrow> Inl e
                                        | Inr (kvs, r4) \<Rightarrow> Inr ((k, v) # kvs, r4))
                                  else Inl JSONDecodeError)))))"

definition json_loads :: "string \<Rightarrow> error + json" where
  "json_loads s =
     (case parse_value (2 * length s + 2) (skip_ws s) of
        Inl e \<Rightarrow> Inl e
      | Inr (v, r) \<Rightarrow> if skip_ws r = [] then Inr v else Inl JSONDecodeError)"

text \<open>Subscripts on a decoded value. A dictionary keeps the last value given for a key.
  \<^verbatim>\<open>x["key"]\<close> needs a dictionary; \<^verbatim>\<open>x[0]\<close> takes the first element of a list or the
  first character of a string, and looks up the key \<^verbatim>\<open>0\<close>, which no decoded dictionary
  has, in a dictionary.\<close>

definition dict_get :: "(string \<times> json) list \<Rightarrow> string \<Rightarrow> json option" where
  "dict_get kvs k = map_of (rev kvs) k"

definition getitem_key :: "string \<Rightarrow> json \<Rightarrow> error + json" where
  "getitem_key k v =
     (case v of
        JObject kvs \<Rightarrow> (case dict_get kvs k of None \<Rightarrow> Inl KeyError | Some x \<Rightarrow> Inr x)
      | _ \<Rightarrow> Inl TypeError)"

definition getitem_0 :: "json \<Rightarrow> error + json" where
  "getitem_0 v =
     (case v of
        JArray vs \<Rightarrow> (case vs of [] \<Rightarrow> Inl IndexError | x # xs \<Rightarrow> Inr x)
      | JObject kvs \<Rightarrow> Inl KeyError
      | JString s \<Rightarrow>
          (case s of
             [] \<Rightarrow> Inl IndexError
           | c # cs \<Rightarrow> if (of_char c :: int) < 128 then Inr (JString [c]) else Inl Unmodelled)
      | _ \<Rightarrow> Inl TypeError)"

section \<open>The completion client and the month resolver\<close>

text \<open>\<^verbatim>\<open>response.json()\<close> decodes the bytes of the body: unlike \<^verbatim>\<open>json.loads\<close> on a
  string, it accepts a UTF-8 byte order mark in front (bodies in UTF-16 or UTF-32,
  which it also detects, are outside the strings of this model).\<close>

definition response_json :: "string \<Rightarrow> error + json" where
  "response_json body =
     (if starts_with [CHR 0xEF, CHR 0xBB, CHR 0xBF] body then json_loads (drop 3 body)
      else json_loads body)"

text \<open>One POST per call; the request is logged, and the server's answer may depend on
  how many requests came before. What is returned is whatever value sits at
  \<^verbatim>\<open>["choices"][0]["message"]["content"]\<close> of the decoded body: Python does not check
  the annotated return type.\<close>

definition get_openrouter_response :: "string \<Rightarrow> string \<Rightarrow> string \<Rightarrow> world \<Rightarrow> (error + json) \<times> world" where
  "get_openrouter_response prompt model api_key w =
     (let headers = [(''Authorization'', ''Bearer '' @ api_key),
                     (''Content-Type'', ''application/json'')];
          body = JObject [(''model'', JString model),
                          (''messages'',
                           JArray [JObject [(''role'', JString ''user''),
                                            (''content'', JString prompt)]])];
          url = ''https://openrouter.ai/api/v1/chat/completions'';
          w1 = w\<lparr>post_log := post_log w @ [(url, headers, body)]\<rparr>
      in case post_server w (length (post_log w)) url headers body of
           NetworkFailure \<Rightarrow> (Inl TransportError, w1)
         | Response status txt \<Rightarrow>
             if is_success status
             then (and_then (response_json txt) (\<lambda>j.
                   and_then (getitem_key ''choices'' j) (\<lambda>cs.
                   and_then (getitem_0 cs) (\<lambda>c.
                   and_then (getitem_key ''message'' c) (\<lambda>m.
                   getitem_key ''content'' m)))), w1)
             else (Inl (HTTPStatusError status txt), w1))"

text \<open>\<^verbatim>\<open>int(x)\<close> on a decoded value. Truncating a float is not modelled.\<close>

definition py_int :: "json \<Rightarrow> error + int" where
  "py_int v =
     (case v of
        JString s \<Rightarrow> int_of_str s
      | JInt n \<Rightarrow> Inr n
      | JBool b \<Rightarrow> Inr (if b then 1 else 0)
      | JFloat l \<Rightarrow> Inl Unmodelled
      | _ \<Rightarrow> Inl TypeError)"

definition month_prompt_before :: string where
  \<open>month_prompt_before =
      ''    Can you tell me which month the events in this HTML calendar are for? I want you to\<newline>'' @
      ''    reply with the number of a month in the year, from 1-12, where 1 is January, 2 is\<newline>'' @
      ''    February, and so on.\<newline>'' @
      ''\<newline>'' @
      ''    Reply only with a number, no commentary or anything else.\<newline>'' @
      ''\<newline>'' @
      ''    Here is the HTML to parse:\<newline>'' @
      ''\<newline>'' @
      ''    ```html\<newline>'' @
      ''    ''\<close>

definition month_prompt_after :: string where
  \<open>month_prompt_after =
      ''\<newline>'' @
      ''    ```\<newline>'' @
      ''    ''\<close>

definition get_events_month :: "string \<Rightarrow> string \<Rightarrow> string \<Rightarrow> world \<Rightarrow> (error + int) \<times> world" where
  "get_events_month html api_key model w =
     (let formatted_prompt = month_prompt_before @ html @ month_prompt_after
      in case get_openrouter_response formatted_prompt model api_key w of
           (Inl e, w1) \<Rightarrow> (Inl e, w1)
         | (Inr ai_response, w1) \<Rightarrow> (py_int ai_response, w1))"

section \<open>The calendar grid\<close>

text \<open>\<^verbatim>\<open>calendar.TextCalendar().formatmonth(theyear, themonth)\<close>, weeks starting on
  Monday: the month name and year centred in 20 columns, the week header, and one line
  per week, each stripped of trailing spaces and ended by a line feed. A month outside
  1..12 raises: the month name is looked up first, in a table with the indices -13..12,
  which raises \<^verbatim>\<open>IndexError\<close> outside them, and the month's range is computed next,
  which raises \<^verbatim>\<open>IllegalMonthError\<close> (as in CPython 3.11; later versions raise
  \<^verbatim>\<open>IllegalMonthError\<close> throughout).\<close>

definition is_leap :: "int \<Rightarrow> bool" where
  "is_leap y = (if y mod 400 = 0 then True else if y mod 100 = 0 then False else y mod 4 = 0)"

definition mdays :: "int list" where
  "mdays = [31, 28, 31, 30, 31, 30, 31, 31, 30, 31, 30, 31]"

definition days_in_month :: "int \<Rightarrow> int \<Rightarrow> int" where
  "days_in_month y m = (if m = 2 \<and> is_leap y then 29 else mdays ! nat (m - 1))"

definition days_before_year :: "int \<Rightarrow> int" where
  "days_before_year y = (y - 1) * 365 + (y - 1) div 4 - (y - 1) div 100 + (y - 1) div 400"

definition days_before_month :: "int \<Rightarrow> int \<Rightarrow> int" where
  "days_before_month y m = sum_list (map (days_in_month y) [1..m - 1])"

text \<open>Monday is 0.\<close>

definition weekday :: "int \<Rightarrow> int \<Rightarrow> int \<Rightarrow> int" where
  "weekday y m d = (days_before_year y + days_before_month y m + d + 6) mod 7"

definition month_name :: "string list" where
  "month_name =
     [''January'', ''February'', ''March'', ''April'', ''May'', ''June'', ''July'', ''August'',
      ''September'', ''October'', ''November'', ''December'']"

definition center :: "nat \<Rightarrow> string \<Rightarrow> string" where
  "center width s =
     (let pad = width - length s;
          left = pad div 2 + (if odd pad \<and> odd width then 1 else 0)
      in replicate left (CHR '' '') @ s @ replicate (pad - left) (CHR '' ''))"

definition rstrip :: "string \<Rightarrow> string" where
  "rstrip s = rev (dropWhile is_ascii_space (rev s))"

definition itermonthdays :: "int \<Rightarrow> int \<Rightarrow> int list" where
  "itermonthdays y m =
     (let day1 = weekday y m 1;
          ndays = days_in_month y m;
          days_before = day1 mod 7;
          days_after = (0 - day1 - ndays) mod 7
      in replicate (nat days_before) 0 @ [1..ndays] @ replicate (nat days_after) 0)"

fun weeks_of :: "int list \<Rightarrow> int list list" where
  "weeks_of [] = []"
| "weeks_of (d # ds) = take 7 (d # ds) # weeks_of (drop 6 ds)"

text \<open>\<^verbatim>\<open>'%2i' % day\<close> centred in two columns; day 0 marks a cell outside the month.\<close>

definition formatday :: "int \<Rightarrow> string" where
  "formatday d =
     (if d = 0 then center 2 []
      else center 2 (replicate (2 - length (str_int d)) (CHR '' '') @ str_int d))"

definition formatweek :: "int list \<Rightarrow> string" where
  "formatweek week = join '' '' (map formatday week)"

definition formatmonth :: "int \<Rightarrow> int \<Rightarrow> error + string" where
  "formatmonth theyear themonth =
     (if 12 < themonth then Inl IndexError
      else if themonth < - 13 then Inl IndexError
      else if themonth < 1 then Inl IllegalMonthError
      else
        let head = rstrip (center 20 (month_name ! nat (themonth - 1) @ '' '' @ str_int theyear));
            week_header = rstrip ''Mo Tu We Th Fr Sa Su'';
            weeks = weeks_of (itermonthdays theyear themonth)
        in Inr (head @ ''\<newline>'' @ week_header @ ''\<newline>'' @
                concat (map (\<lambda>week. rstrip (formatweek week) @ ''\<newline>'') weeks)))"

section \<open>Validating events and the event extractor\<close>

text \<open>\<^verbatim>\<open>Event.model_validate\<close>. The input must be a dictionary; \<open>date\<close>, \<open>title\<close>,
  \<open>start_time\<close> and \<open>end_time\<close> are required, \<open>description\<close> defaults to \<^verbatim>\<open>None\<close>; other
  keys are ignored. A date is modelled for strings \<^verbatim>\<open>YYYY-MM-DD\<close>, a time for strings
  \<^verbatim>\<open>HH:MM\<close> and \<^verbatim>\<open>HH:MM:SS\<close>; the validator's other coercions (numbers as timestamps,
  strings in other forms) are not modelled. Any field that fails makes the whole
  validation fail.\<close>

definition all_digits :: "string \<Rightarrow> bool" where
  "all_digits s = list_all is_digit s"

definition parse_iso_date :: "string \<Rightarrow> error + pydate" where
  "parse_iso_date s =
     (if length s = 10 \<and> all_digits (take 4 s) \<and> s ! 4 = CHR ''-'' \<and> all_digits (take 2 (drop 5 s))
         \<and> s ! 7 = CHR ''-'' \<and> all_digits (drop 8 s)
      then (let y = int_of_digits (take 4 s);
                m = int_of_digits (take 2 (drop 5 s));
                d = int_of_digits (drop 8 s)
            in if 1 \<le> y \<and> 1 \<le> m \<and> m \<le> 12 \<and> 1 \<le> d \<and> d \<le> days_in_month y m
               then Inr (Date y m d) else Inl ValidationError)
      else Inl Unmodelled)"

definition parse_iso_time :: "string \<Rightarrow> error + pytime" where
  "parse_iso_time s =
     (if (length s = 5 \<or> length s = 8) \<and> all_digits (take 2 s) \<and> s ! 2 = CHR '':''
         \<and> all_digits (take 2 (drop 3 s))
         \<and> (if length s = 8 then s ! 5 = CHR '':'' \<and> all_digits (drop 6 s) else True)
      then (let hh = int_of_digits (take 2 s);
                mm = int_of_digits (take 2 (drop 3 s));
                ss = int_of_digits (drop 6 s)
            in if hh < 24 \<and> mm < 60 \<and> ss < 60 then Inr (Time hh mm ss 0)
               else Inl ValidationError)
      else Inl Unmodelled)"

definition validate_date :: "json option \<Rightarrow> error + pydate" where
  "validate_date v =
     (case v of
        None \<Rightarrow> Inl ValidationError
      | Some (JString s) \<Rightarrow> parse_iso_date s
      | Some (JInt n) \<Rightarrow> Inl Unmodelled
      | Some (JFloat l) \<Rightarrow> Inl Unmodelled
      | Some (JBool b) \<Rightarrow> Inl Unmodelled
      | Some x \<Rightarrow> Inl ValidationError)"

definition validate_time :: "json option \<Rightarrow> error + pytime" where
  "validate_time v =
     (case v of
        None \<Rightarrow> Inl ValidationError
      | Some (JString s) \<Rightarrow> parse_iso_time s
      | Some (JInt n) \<Rightarrow> Inl Unmodelled
      | Some (JFloat l) \<Rightarrow> Inl Unmodelled
      | Some (JBool b) \<Rightarrow> Inl Unmodelled
      | Some x \<Rightarrow> Inl ValidationError)"

definition validate_str :: "json option \<Rightarrow> error + string" where
  "validate_str v = (case v of Some (JString s) \<Rightarrow> Inr s | _ \<Rightarrow> Inl ValidationError)"

definition validate_optional_str :: "json option \<Rightarrow> error + string option" where
  "validate_optional_str v =
     (case v of
        None \<Rightarrow> Inr None
      | Some JNull \<Rightarrow> Inr None
      | Some (JString s) \<Rightarrow> Inr (Some s)
      | Some x \<Rightarrow> Inl ValidationError)"

definition failure :: "error + 'a \<Rightarrow> error option" where
  "failure r = (case r of Inl e \<Rightarrow> Some e | Inr x \<Rightarrow> None)"

definition model_validate :: "json \<Rightarrow> error + Event" where
  "model_validate v =
     (case v of
        JObject kvs \<Rightarrow>
          (let d = validate_date (dict_get kvs ''date'');
               t = validate_str (dict_get kvs ''title'');
               ds = validate_optional_str (dict_get kvs ''description'');
               st = validate_time (dict_get kvs ''start_time'');
               et = validate_time (dict_get kvs ''end_time'');
               failures = [failure d, failure t, failure ds, failure st, failure et]
           in if Some ValidationError \<in> set failures then Inl ValidationError
              else if Some Unmodelled \<in> set failures then Inl Unmodelled
              else and_then d (\<lambda>d'. and_then t (\<lambda>t'. and_then ds (\<lambda>ds'.
                   and_then st (\<lambda>st'. and_then et (\<lambda>et'.
                     Inr \<lparr>date = d', title = t', description = ds',
                          start_time = st', end_time = et'\<rparr>))))))
      | _ \<Rightarrow> Inl ValidationError)"

text \<open>\<^verbatim>\<open>json.loads(x)\<close> needs a string; \<^verbatim>\<open>for event_detail in x\<close> runs over the elements
  of a list, over the keys of a dictionary and over the characters of a string, and
  raises on anything else.\<close>

definition loads_value :: "json \<Rightarrow> error + json" where
  "loads_value v = (case v of JString s \<Rightarrow> json_loads s | _ \<Rightarrow> Inl TypeError)"

definition iterate :: "json \<Rightarrow> error + json list" where
  "iterate v =
     (case v of
        JArray vs \<Rightarrow> Inr vs
      | JObject kvs \<Rightarrow> Inr (map JString (remdups (map fst kvs)))
      | JString s \<Rightarrow> Inr (map (\<lambda>c. JString [c]) s)
      | _ \<Rightarrow> Inl TypeError)"

fun validate_all :: "json list \<Rightarrow> error + Event list" where
  "validate_all [] = Inr []"
| "validate_all (event_detail # rest) =
     (case model_validate event_detail of
        Inl e \<Rightarrow> Inl e
      | Inr event \<Rightarrow>
          (case validate_all rest of
             Inl e \<Rightarrow> Inl e
           | Inr events \<Rightarrow> Inr (event # events)))"

definition events_prompt_1 :: string where
  \<open>events_prompt_1 =
      ''    Can you please format the following HTML into a JSON array? DO NOT include any\<newline>'' @
      ''    commentary, only the JSON response.\<newline>'' @
      ''\<newline>'' @
      ''    The returned object should be as follows:\<newline>'' @
      ''\<newline>'' @
      ''    Use the following schemas:\<newline>'' @
      ''\<newline>'' @
      ''    - date: ISO date\<newline>'' @
      ''    - title (from Event field in table): string\<newline>'' @
      ''    - description (from Event field in table): string OR null\<newline>'' @
      ''    - start_time (half of Time field in table): ISO time\<newline>'' @
      ''    - end_time (half of Time field in table): ISO time\<newline>'' @
      ''\<newline>'' @
      ''    If the event is on weekly throughout the month (e.g. "every Thursday"), please create a\<newline>'' @
      ''    JSON object for every applicable date. Here's a calendar for the month for you to\<newline>'' @
      ''    reference:\<newline>'' @
      ''\<newline>'' @
      ''    ''\<close>

definition events_prompt_2 :: string where
  \<open>events_prompt_2 =
      ''\<newline>'' @
      ''\<newline>'' @
      ''    Here is the HTML to format:\<newline>'' @
      ''\<newline>'' @
      ''    ```html\<newline>'' @
      ''    ''\<close>

definition events_prompt_3 :: string where
  \<open>events_prompt_3 =
      ''\<newline>'' @
      ''    ```\<newline>'' @
      ''    ''\<close>

definition create_events_from_html :: "string \<Rightarrow> int \<Rightarrow> string \<Rightarrow> string \<Rightarrow> world \<Rightarrow> (error + Event list) \<times> world" where
  "create_events_from_html html month_number api_key model w =
     (case formatmonth 2025 month_number of
        Inl e \<Rightarrow> (Inl e, w)
      | Inr month_cal \<Rightarrow>
          (let formatted_prompt =
                 events_prompt_1 @ month_cal @ events_prompt_2 @ html @ events_prompt_3
           in case get_openrouter_response formatted_prompt model api_key w of
                (Inl e, w1) \<Rightarrow> (Inl e, w1)
              | (Inr ai_response, w1) \<Rightarrow>
                  (and_then (loads_value ai_response) (\<lambda>parsed_ai_response.
                   and_then (iterate parsed_ai_response) validate_all), w1)))"

section \<open>Settings and the orchestrator\<close>

record Settings =
  events_page_url :: string
  openrouter_api_key :: string
  openrouter_model :: string
  artifacts_dir :: path
  ics_file_name :: path
  html_file_name :: path
  scraper_user_agent :: string
  log_level :: string

text \<open>The settings with the defaults of \<^verbatim>\<open>settings.py\<close>; the page address and the API key
  have none.\<close>

definition default_settings :: "string \<Rightarrow> string \<Rightarrow> Settings" where
  "default_settings url api_key =
     \<lparr>events_page_url = url,
      openrouter_api_key = api_key,
      openrouter_model = ''deepseek/deepseek-chat-v3.1:free'',
      artifacts_dir = Path False [''artifacts''],
      ics_file_name = Path False [''events.ics''],
      html_file_name = Path False [''events.html''],
      scraper_user_agent =
        ''Mozilla/5.0 (Macintosh; Intel Mac OS X 15.7; rv:143.0) Gecko/20100101 Firefox/143.0'',
      log_level = ''DEBUG''\<rparr>"

text \<open>\<^verbatim>\<open>str(path)\<close>, the logger, and \<open>main\<close>. Each step that raises ends the run with its
  error and the world as it is then.\<close>

definition str_path :: "path \<Rightarrow> string" where
  "str_path p =
     (case p of Path a ps \<Rightarrow>
        if a then ''/'' @ join ''/'' ps else if ps = [] then ''.'' else join ''/'' ps)"

definition info :: "string \<Rightarrow> world \<Rightarrow> world" where
  "info msg w = w\<lparr>logged := logged w @ [msg]\<rparr>"

definition main :: "(string \<Rightarrow> html list) \<Rightarrow> Settings \<Rightarrow> world \<Rightarrow> (error + unit) \<times> world" where
  "main BeautifulSoup settings w =
     (case mkdir (artifacts_dir settings) w of
        (Inl e, w1) \<Rightarrow> (Inl e, w1)
      | (Inr u1, w1) \<Rightarrow>
     (case get_page_html ''https://markets.leeds.gov.uk/whats-kirkgate'' None w1 of
        (Inl e, w2) \<Rightarrow> (Inl e, w2)
      | (Inr page, w2) \<Rightarrow>
     (case find_html_events_table BeautifulSoup page of
        Inl e \<Rightarrow> (Inl e, w2)
      | Inr events_table_html \<Rightarrow>
     (let events_html_file_path = joinpath (artifacts_dir settings) (html_file_name settings)
      in
     (case file_content_matches_existing events_html_file_path events_table_html w2 of
        Inl e \<Rightarrow> (Inl e, w2)
      | Inr unchanged \<Rightarrow>
          if unchanged
          then (Inr (), info ''No changes detected in events HTML. Exiting.'' w2)
          else
     (case write_text events_html_file_path events_table_html w2 of
        (Inl e, w3) \<Rightarrow> (Inl e, w3)
      | (Inr u3, w3) \<Rightarrow>
     (let api_key = openrouter_api_key settings;
          model = openrouter_model settings
      in
     (case get_events_month events_table_html api_key model w3 of
        (Inl e, w4) \<Rightarrow> (Inl e, w4)
      | (Inr month_number, w4) \<Rightarrow>
     (case create_events_from_html events_table_html month_number api_key model w4 of
        (Inl e, w5) \<Rightarrow> (Inl e, w5)
      | (Inr events, w5) \<Rightarrow>
     (case create_ics_from_events events w5 of
        (ics_content, w6) \<Rightarrow>
     (let ics_file_path = joinpath (artifacts_dir settings) (ics_file_name settings)
      in
     (case write_text ics_file_path ics_content w6 of
        (Inl e, w7) \<Rightarrow> (Inl e, w7)
      | (Inr u7, w7) \<Rightarrow>
          (Inr (), info (''ICS file written to path: '' @ str_path ics_file_path) w7)))))))))))))"

text \<open>The part of \<open>main\<close> that runs once the new snapshot is written: resolve the month,
  extract the events, serialize them and write the calendar file. It is \<open>main\<close>'s own
  text from that point on (see \<open>main_unfold\<close> below), named so that it can be reasoned
  about on its own.\<close>

definition main_tail :: "Settings \<Rightarrow> string \<Rightarrow> world \<Rightarrow> (error + unit) \<times> world" where
  "main_tail settings events_table_html w3 =
     (let api_key = openrouter_api_key settings;
          model = openrouter_model settings
      in
     (case get_events_month events_table_html api_key model w3 of
        (Inl e, w4) \<Rightarrow> (Inl e, w4)
      | (Inr month_number, w4) \<Rightarrow>
     (case create_events_from_html events_table_html month_number api_key model w4 of
        (Inl e, w5) \<Rightarrow> (Inl e, w5)
      | (Inr events, w5) \<Rightarrow>
     (case create_ics_from_events events w5 of
        (ics_content, w6) \<Rightarrow>
     (let ics_file_path = joinpath (artifacts_dir settings) (ics_file_name settings)
      in
     (case write_text ics_file_path ics_content w6 of
        (Inl e, w7) \<Rightarrow> (Inl e, w7)
      | (Inr u7, w7) \<Rightarrow>
          (Inr (), info (''ICS file written to path: '' @ str_path ics_file_path) w7)))))))"

section \<open>Reading the output back\<close>

text \<open>\<open>split_crlf\<close> is \<^verbatim>\<open>s.split("\r\n")\<close>, the lines of a text whose lines are
  separated by CRLF; \<open>has_crlf\<close> says whether a string contains that separator. They
  are not part of the program: the properties of its output are stated with them.
  \<open>uid_at w i\<close> is the identifier that the \<open>i\<close>-th call of \<^verbatim>\<open>uuid4\<close> from \<open>w\<close> returns.\<close>

fun has_crlf :: "string \<Rightarrow> bool" where
  "has_crlf [] = False"
| "has_crlf [c] = False"
| "has_crlf (c # d # cs) = ((c = CHR 0x0D \<and> d = CHR 0x0A) \<or> has_crlf (d # cs))"

fun split_crlf :: "string \<Rightarrow> string list" where
  "split_crlf [] = [[]]"
| "split_crlf [c] = [[c]]"
| "split_crlf (c # d # cs) =
     (if c = CHR 0x0D \<and> d = CHR 0x0A then [] # split_crlf cs
      else (case split_crlf (d # cs) of [] \<Rightarrow> [[c]] | p # ps \<Rightarrow> (c # p) # ps))"

definition uid_at :: "world \<Rightarrow> nat \<Rightarrow> 128 word" where
  "uid_at w i = fst (uuid4 (w\<lparr>drawn := drawn w + i\<rparr>))"

definition event_blocks :: "string \<Rightarrow> world \<Rightarrow> Event list \<Rightarrow> string list list" where
  "event_blocks ts w events = map (\<lambda>i. event_entry ts (uid_at w i) (events ! i)) [0..<length events]"

text \<open>A world with no files and no network, and two events used as examples.\<close>

definition still_world :: world where
  "still_world =
     \<lparr>fs = (\<lambda>p. None),
      local_now = Datetime (Date 2025 3 1) (Time 9 30 0 0),
      utc_now = Datetime (Date 2025 3 1) (Time 9 30 0 0),
      urandom = (\<lambda>n. 0),
      drawn = 0,
      get_server = (\<lambda>url hs. NetworkFailure),
      post_server = (\<lambda>n url hs body. NetworkFailure),
      get_log = [],
      post_log = [],
      write_log = [],
      logged = []\<rparr>"

definition market_day :: Event where
  "market_day =
     \<lparr>date = Date 2025 3 4, title = ''Market Day'', description = None,
      start_time = Time 8 0 0 0, end_time = Time 16 0 0 0\<rparr>"

definition craft_fair :: Event where
  "craft_fair =
     \<lparr>date = Date 2025 3 15, title = ''Craft Fair'',
      description = Some (''Stalls'' @ [CHR 0x0A] @ ''and music''),
      start_time = Time 10 0 0 0, end_time = Time 15 30 0 0\<rparr>"

text \<open>A world whose source of random bytes gives a different value at every draw.\<close>

definition counting_world :: world where
  "counting_world =
     still_world\<lparr>urandom := (\<lambda>n. 0x0123456789ABCDEF0123456789ABCDEF + of_nat n)\<rparr>"

definition injected_event :: Event where
  "injected_event =
     \<lparr>date = Date 2025 3 4,
      title = ''x'' @ CRLF @ ''END:VEVENT'' @ CRLF @ ''BEGIN:VEVENT'',
      description = None, start_time = Time 8 0 0 0, end_time = Time 16 0 0 0\<rparr>"

section \<open>Example worlds\<close>

text \<open>Settings, documents and worlds at which the properties below are evaluated. The
  completion service of \<open>demo_world\<close> answers its \<open>n\<close>-th request with the \<open>n\<close>-th reply,
  wrapped in the JSON body the client expects; the page server answers every request
  with the given page.\<close>

definition demo_settings :: Settings where
  "demo_settings =
     \<lparr>events_page_url = ''https://example.org/events'',
      openrouter_api_key = ''sk-test'',
      openrouter_model = ''deepseek/deepseek-chat-v3.1:free'',
      artifacts_dir = Path False [''artifacts''],
      ics_file_name = Path False [''events.ics''],
      html_file_name = Path False [''events.html''],
      scraper_user_agent = ''KirkgateBot/1.0'',
      log_level = ''DEBUG''\<rparr>"

definition snapshot_path :: path where
  "snapshot_path = Path False [''artifacts'', ''events.html'']"

definition calendar_path :: path where
  "calendar_path = Path False [''artifacts'', ''events.ics'']"

definition json_string_literal :: "string \<Rightarrow> string" where
  "json_string_literal s =
     [CHR 0x22] @
     concat (map (\<lambda>c. if c = CHR 0x22 then [CHR 0x5C, CHR 0x22]
                        else if c = CHR 0x5C then [CHR 0x5C, CHR 0x5C]
                        else if c = CHR 0x0A then [CHR 0x5C, CHR ''n'']
                        else if c = CHR 0x0D then [CHR 0x5C, CHR ''r'']
                        else [c]) s) @
     [CHR 0x22]"

definition completion_body :: "string \<Rightarrow> string" where
  \<open>completion_body content =
     ''{"choices":[{"message":{"role":"assistant","content":'' @ json_string_literal content @ ''}}]}''\<close>

definition demo_world :: "(path \<Rightarrow> node option) \<Rightarrow> pydatetime \<Rightarrow> pydatetime \<Rightarrow> string \<Rightarrow> string list \<Rightarrow> world" where
  "demo_world files local utc page replies =
     \<lparr>fs = files,
      local_now = local,
      utc_now = utc,
      urandom = (\<lambda>n. 0),
      drawn = 0,
      get_server = (\<lambda>url hs. Response 200 page),
      post_server = (\<lambda>n url hs body.
         if n < length replies then Response 200 (completion_body (replies ! n))
         else NetworkFailure),
      get_log = [],
      post_log = [],
      write_log = [],
      logged = []\<rparr>"

definition nine_thirty :: pydatetime where
  "nine_thirty = Datetime (Date 2025 7 1) (Time 9 30 0 0)"

definition ten_thirty :: pydatetime where
  "ten_thirty = Datetime (Date 2025 7 1) (Time 10 30 0 0)"

text \<open>A parser that knows one page.\<close>

definition parser_for :: "string \<Rightarrow> html list \<Rightarrow> string \<Rightarrow> html list" where
  "parser_for page doc s = (if s = page then doc else [])"

definition page_without_table :: string where
  "page_without_table = ''<main><p>x</p></main>''"

definition soup_without_table :: "html list" where
  "soup_without_table = [Tag ''main'' [] [Tag ''p'' [] [NavigableString ''x'']]]"

text \<open>A page whose table has a cell with a CRLF line break inside its text, the tree
  of that page and the markup of its table.\<close>

definition crlf_cell_page :: string where
  "crlf_cell_page =
     ''<main><table><tr><td>a'' @ CRLF @ ''b</td></tr></table></main>''"

definition crlf_cell_soup :: "html list" where
  "crlf_cell_soup =
     [Tag ''main'' []
        [Tag ''table'' [] [Tag ''tr'' [] [Tag ''td'' [] [NavigableString (''a'' @ CRLF @ ''b'')]]]]]"

definition crlf_cell_table :: string where
  "crlf_cell_table = ''<table><tr><td>a'' @ CRLF @ ''b</td></tr></table>''"

definition crlf_table :: string where
  "crlf_table = ''<table>'' @ CRLF @ ''</table>''"

definition market_day_reply :: string where
  \<open>market_day_reply =
     ''[{"date":"2025-03-04","title":"Market Day","description":null,"start_time":"08:00:00","end_time":"16:00:00"}]''\<close>

definition artifacts_only :: "path \<Rightarrow> node option" where
  "artifacts_only = [Path False [''artifacts''] \<mapsto> Dir]"

definition with_crlf_cell_snapshot :: "path \<Rightarrow> node option" where
  "with_crlf_cell_snapshot =
     [Path False [''artifacts''] \<mapsto> Dir,
      Path False [''artifacts'', ''events.html''] \<mapsto> File crlf_cell_table]"

text \<open>The nodes of a document in document order, for stating what \<open>find_tag\<close> finds.\<close>

fun descendants :: "html list \<Rightarrow> html list" where
  "descendants [] = []"
| "descendants (NavigableString s # rest) = NavigableString s # descendants rest"
| "descendants (Comment s # rest) = Comment s # descendants rest"
| "descendants (Tag n attrs cs # rest) = Tag n attrs cs # descendants cs @ descendants rest"

fun named :: "string \<Rightarrow> html \<Rightarrow> bool" where
  "named name (Tag n attrs cs) = (n = name)"
| "named name (NavigableString s) = False"
| "named name (Comment s) = False"

definition empty_table :: string where
  "empty_table = ''<table></table>''"

text \<open>The twelve month grids of the year 2025 as the standard text calendar prints them,
  weeks starting on Monday: the reference for the grid that the event extractor puts
  into its prompt.\<close>

definition text_calendar_2025 :: "string list" where
  "text_calendar_2025 =
     [''    January 2025\<newline>Mo Tu We Th Fr Sa Su\<newline>       1  2  3  4  5\<newline> 6  7  8  9 10 11 12\<newline>13 14 15 16 17 18 19\<newline>20 21 22 23 24 25 26\<newline>27 28 29 30 31\<newline>'',
      ''   February 2025\<newline>Mo Tu We Th Fr Sa Su\<newline>                1  2\<newline> 3  4  5  6  7  8  9\<newline>10 11 12 13 14 15 16\<newline>17 18 19 20 21 22 23\<newline>24 25 26 27 28\<newline>'',
      ''     March 2025\<newline>Mo Tu We Th Fr Sa Su\<newline>                1  2\<newline> 3  4  5  6  7  8  9\<newline>10 11 12 13 14 15 16\<newline>17 18 19 20 21 22 23\<newline>24 25 26 27 28 29 30\<newline>31\<newline>'',
      ''     April 2025\<newline>Mo Tu We Th Fr Sa Su\<newline>    1  2  3  4  5  6\<newline> 7  8  9 10 11 12 13\<newline>14 15 16 17 18 19 20\<newline>21 22 23 24 25 26 27\<newline>28 29 30\<newline>'',
      ''      May 2025\<newline>Mo Tu We Th Fr Sa Su\<newline>          1  2  3  4\<newline> 5  6  7  8  9 10 11\<newline>12 13 14 15 16 17 18\<newline>19 20 21 22 23 24 25\<newline>26 27 28 29 30 31\<newline>'',
      ''     June 2025\<newline>Mo Tu We Th Fr Sa Su\<newline>                   1\<newline> 2  3  4  5  6  7  8\<newline> 9 10 11 12 13 14 15\<newline>16 17 18 19 20 21 22\<newline>23 24 25 26 27 28 29\<newline>30\<newline>'',
      ''     July 2025\<newline>Mo Tu We Th Fr Sa Su\<newline>    1  2  3  4  5  6\<newline> 7  8  9 10 11 12 13\<newline>14 15 16 17 18 19 20\<newline>21 22 23 24 25 26 27\<newline>28 29 30 31\<newline>'',
      ''    August 2025\<newline>Mo Tu We Th Fr Sa Su\<newline>             1  2  3\<newline> 4  5  6  7  8  9 10\<newline>11 12 13 14 15 16 17\<newline>18 19 20 21 22 23 24\<newline>25 26 27 28 29 30 31\<newline>'',
      ''   September 2025\<newline>Mo Tu We Th Fr Sa Su\<newline> 1  2  3  4  5  6  7\<newline> 8  9 10 11 12 13 14\<newline>15 16 17 18 19 20 21\<newline>22 23 24 25 26 27 28\<newline>29 30\<newline>'',
      ''    October 2025\<newline>Mo Tu We Th Fr Sa Su\<newline>       1  2  3  4  5\<newline> 6  7  8  9 10 11 12\<newline>13 14 15 16 17 18 19\<newline>20 21 22 23 24 25 26\<newline>27 28 29 30 31\<newline>'',
      ''   November 2025\<newline>Mo Tu We Th Fr Sa Su\<newline>                1  2\<newline> 3  4  5  6  7  8  9\<newline>10 11 12 13 14 15 16\<newline>17 18 19 20 21 22 23\<newline>24 25 26 27 28 29 30\<newline>'',
      ''   December 2025\<newline>Mo Tu We Th Fr Sa Su\<newline> 1  2  3  4  5  6  7\<newline> 8  9 10 11 12 13 14\<newline>15 16 17 18 19 20 21\<newline>22 23 24 25 26 27 28\<newline>29 30 31\<newline>'']"

definition completion_url :: string where
  "completion_url = ''https://openrouter.ai/api/v1/chat/completions''"

text \<open>The request that the completion client sends for a prompt.\<close>

definition completion_request :: "string \<Rightarrow> string \<Rightarrow> string \<Rightarrow> string \<times> headers \<times> json" where
  "completion_request prompt model api_key =
     (''https://openrouter.ai/api/v1/chat/completions'',
      [(''Authorization'', ''Bearer '' @ api_key), (''Content-Type'', ''application/json'')],
      JObject [(''model'', JString model),
               (''messages'',
                JArray [JObject [(''role'', JString ''user''), (''content'', JString prompt)]])])"

text \<open>The text of the file at a path, if a file is there.\<close>

definition file_at :: "world \<Rightarrow> path \<Rightarrow> string option" where
  "file_at w p = (case node_at (fs w) p of Some (File s) \<Rightarrow> Some s | _ \<Rightarrow> None)"

definition table_page :: string where
  "table_page = ''<main><table><tr><td>Market Day</td></tr></table></main>''"

definition table_soup :: "html list" where
  "table_soup =
     [Tag ''main'' [] [Tag ''table'' [] [Tag ''tr'' [] [Tag ''td'' [] [NavigableString ''Market Day'']]]]]"

definition with_old_calendar :: "path \<Rightarrow> node option" where
  "with_old_calendar =
     [Path False [''artifacts''] \<mapsto> Dir,
      Path False [''artifacts'', ''events.ics''] \<mapsto> File ''OLD'']"

section \<open>The calendar serializer: lines, blocks and CRLF\<close>

text \<open>The output is read back by splitting it at every CRLF (\<open>split_crlf\<close>, Python's
  \<^verbatim>\<open>s.split("\r\n")\<close>). A line that contains no CRLF comes back whole.\<close>

lemma split_crlf_single: "\<not> has_crlf x \<Longrightarrow> split_crlf x = [x]"
  by (induction x rule: has_crlf.induct) auto

lemma split_crlf_append:
  "\<not> has_crlf x \<Longrightarrow> split_crlf (x @ CRLF @ r) = x # split_crlf r"
  by (induction x rule: has_crlf.induct) (auto simp: CRLF_def)

lemma split_crlf_join:
  "ls \<noteq> [] \<Longrightarrow> \<forall>l\<in>set ls. \<not> has_crlf l \<Longrightarrow> split_crlf (join CRLF ls) = ls"
  by (induction CRLF ls rule: join.induct) (auto simp: split_crlf_single split_crlf_append)

lemma has_crlf_append:
  "has_crlf (a @ b) =
     (has_crlf a \<or> has_crlf b \<or> (a \<noteq> [] \<and> last a = CHR 0x0D \<and> b \<noteq> [] \<and> hd b = CHR 0x0A))"
proof (induction a rule: has_crlf.induct)
  case 1
  then show ?case by simp
next
  case (2 c)
  then show ?case by (cases b) auto
next
  case (3 c d cs)
  then show ?case by auto
qed

lemma no_LF_no_crlf: "CHR 0x0A \<notin> set s \<Longrightarrow> \<not> has_crlf s"
  by (induction s rule: has_crlf.induct) auto

lemma digit_char_mem: "digit_char n \<in> set ''0123456789abcdef''"
  unfolding digit_char_def by (rule nth_mem) simp

lemma digit_char_not_LF: "digit_char n \<noteq> CHR 0x0A" "CHR 0x0A \<noteq> digit_char n"
  using digit_char_mem [of n] by auto

lemma has_crlf_Cons:
  "has_crlf (c # s) = ((c = CHR 0x0D \<and> s \<noteq> [] \<and> hd s = CHR 0x0A) \<or> has_crlf s)"
  by (cases s) auto

lemma digits_of_no_LF: "CHR 0x0A \<notin> set (digits_of n)"
proof (induction n rule: digits_of.induct)
  case (1 n)
  then show ?case
    by (subst digits_of.simps) (auto simp: digit_char_not_LF)
qed

lemma str_int_no_LF: "CHR 0x0A \<notin> set (str_int n)"
  by (simp add: str_int_def digits_of_no_LF)

lemma zfill_no_LF: "CHR 0x0A \<notin> set s \<Longrightarrow> CHR 0x0A \<notin> set (zfill k s)"
  by (simp add: zfill_def)

lemma strftime_basic_no_LF: "CHR 0x0A \<notin> set (strftime_basic dt)"
proof -
  obtain y m d hh mm ss us where "dt = Datetime (Date y m d) (Time hh mm ss us)"
    by (metis pydate.exhaust pytime.exhaust pydatetime.exhaust)
  then show ?thesis
    by (simp add: zfill_no_LF str_int_no_LF)
qed

lemma hex32_no_LF: "CHR 0x0A \<notin> set (hex32 u)"
  by (auto simp: hex32_def digit_char_not_LF simp del: upt_Suc)

lemma str_uuid_no_LF: "CHR 0x0A \<notin> set (str_uuid u)"
  using hex32_no_LF [of u]
  by (auto simp: str_uuid_def Let_def dest: in_set_takeD in_set_dropD)

lemma replace_no_LF: "CHR 0x0A \<notin> set (replace LF [CHR 0x5C, CHR ''n''] s)"
  by (auto simp: replace_def LF_def)

lemma event_entry_no_crlf:
  assumes "\<not> has_crlf (title e)" "CHR 0x0A \<notin> set ts"
  shows "\<forall>l\<in>set (event_entry ts u e). \<not> has_crlf l"
  using assms
  by (simp add: event_entry_def Let_def has_crlf_Cons no_LF_no_crlf
      str_uuid_no_LF strftime_basic_no_LF replace_no_LF combine_def del: has_crlf.simps)

lemma event_entry_length: "length (event_entry ts u e) = 9"
  by (simp add: event_entry_def Let_def)

lemma uuid4_eq: "uuid4 w = (uid_at w 0, w\<lparr>drawn := Suc (drawn w)\<rparr>)"
  by (simp add: uuid4_def uid_at_def Let_def)

lemma uid_at_shift: "uid_at (w\<lparr>drawn := Suc (drawn w)\<rparr>) i = uid_at w (Suc i)"
  by (simp add: uid_at_def)

lemma event_blocks_Cons:
  "event_blocks ts w (e # es) =
     event_entry ts (uid_at w 0) e # event_blocks ts (w\<lparr>drawn := Suc (drawn w)\<rparr>) es"
  by (simp add: event_blocks_def upt_conv_Cons map_Suc_upt [symmetric] uid_at_shift
      del: upt_Suc)

lemma event_entries_eq:
  "event_entries ts es w = (concat (event_blocks ts w es), w\<lparr>drawn := drawn w + length es\<rparr>)"
proof (induction es arbitrary: w)
  case Nil
  then show ?case by (simp add: event_blocks_def)
next
  case (Cons e es)
  show ?case
    by (simp add: uuid4_eq Cons.IH event_blocks_Cons)
qed

lemma concat_blocks_nth:
  "\<forall>b\<in>set bs. length b = k \<Longrightarrow> i < length bs \<Longrightarrow> take k (drop (k * i) (concat bs)) = bs ! i"
proof (induction bs arbitrary: i)
  case Nil
  then show ?case by simp
next
  case (Cons b bs)
  show ?case
  proof (cases i)
    case 0
    with Cons.prems show ?thesis by simp
  next
    case (Suc j)
    with Cons.prems have "take k (drop (k * j) (concat bs)) = bs ! j"
      by (intro Cons.IH) auto
    with Cons.prems Suc show ?thesis by simp
  qed
qed

lemma concat_blocks_length:
  "\<forall>b\<in>set bs. length b = k \<Longrightarrow> length (concat bs) = k * length bs"
  by (induction bs) auto

lemma concat_blocks_count:
  "\<forall>b\<in>set bs. length (filter P b) = 1 \<Longrightarrow> length (filter P (concat bs)) = length bs"
  by (induction bs) auto

lemma create_ics_lines:
  "fst (create_ics_from_events events w) =
     join CRLF (ics_header @ concat (event_blocks (strftime_basic (local_now w) @ ''Z'') w events) @ ics_footer)"
  by (simp add: create_ics_from_events_def Let_def event_entries_eq datetime_now_def)

lemma event_blocks_no_crlf:
  assumes "\<forall>e\<in>set events. \<not> has_crlf (title e)" "CHR 0x0A \<notin> set ts"
  shows "\<forall>l\<in>set (concat (event_blocks ts w events)). \<not> has_crlf l"
  using assms event_entry_no_crlf
  by (fastforce simp: event_blocks_def)

lemma split_create_ics:
  assumes "\<forall>e\<in>set events. \<not> has_crlf (title e)"
  shows "split_crlf (fst (create_ics_from_events events w)) =
     ics_header @ concat (event_blocks (strftime_basic (local_now w) @ ''Z'') w events) @ ics_footer"
proof -
  have ts: "CHR 0x0A \<notin> set (strftime_basic (local_now w) @ ''Z'')"
    by (simp add: strftime_basic_no_LF)
  have "\<forall>l\<in>set (ics_header @ concat (event_blocks (strftime_basic (local_now w) @ ''Z'') w events) @ ics_footer). \<not> has_crlf l"
    using event_blocks_no_crlf [OF assms ts, of w]
    by (auto simp: ics_header_def ics_footer_def)
  then show ?thesis
    unfolding create_ics_lines
    by (intro split_crlf_join) (simp_all add: ics_header_def)
qed

lemma event_entry_begin: "filter (\<lambda>l. l = ''BEGIN:VEVENT'') (event_entry ts u e) = [''BEGIN:VEVENT'']"
  by (simp add: event_entry_def Let_def)

lemma event_entry_end: "filter (\<lambda>l. l = ''END:VEVENT'') (event_entry ts u e) = [''END:VEVENT'']"
  by (simp add: event_entry_def Let_def)

lemma drop_past_body: "length h = a \<Longrightarrow> length c = n \<Longrightarrow> drop (a + n) (h @ c @ f) = f"
  by simp

lemma take_in_body:
  "length h = a \<Longrightarrow> j + k \<le> length c \<Longrightarrow> take k (drop (a + j) (h @ c @ f)) = take k (drop j c)"
  by simp

lemma join_snoc: "xs \<noteq> [] \<Longrightarrow> join sep (xs @ [f]) = join sep xs @ sep @ f"
  by (induction sep xs rule: join.induct) auto

lemma join_header:
  "rest \<noteq> [] \<Longrightarrow> join sep (a # b # c # d # rest) = a @ sep @ b @ sep @ c @ sep @ d @ sep @ join sep rest"
  by (cases rest) auto

lemma join_body_footer:
  "join sep (bs @ [f]) = (if bs = [] then [] else join sep bs @ sep) @ f"
  by (cases "bs = []") (simp_all add: join_snoc)

lemma create_ics_text:
  "\<exists>body. fst (create_ics_from_events events w) =
     ''BEGIN:VCALENDAR'' @ CRLF @ ''VERSION:2.0'' @ CRLF @ ''PRODID:-//MyPythonScript//EN'' @ CRLF @
     ''CALSCALE:GREGORIAN'' @ CRLF @ body @ ''END:VCALENDAR''"
proof -
  define bs where "bs = concat (event_blocks (strftime_basic (local_now w) @ ''Z'') w events)"
  have "fst (create_ics_from_events events w) =
      join CRLF (''BEGIN:VCALENDAR'' # ''VERSION:2.0'' # ''PRODID:-//MyPythonScript//EN'' #
        ''CALSCALE:GREGORIAN'' # (bs @ [''END:VCALENDAR'']))"
    by (simp add: create_ics_lines ics_header_def ics_footer_def bs_def)
  also have "\<dots> = ''BEGIN:VCALENDAR'' @ CRLF @ ''VERSION:2.0'' @ CRLF @
      ''PRODID:-//MyPythonScript//EN'' @ CRLF @ ''CALSCALE:GREGORIAN'' @ CRLF @
      join CRLF (bs @ [''END:VCALENDAR''])"
    by (rule join_header) simp
  finally show ?thesis
    unfolding join_body_footer by (intro exI [of _ "if bs = [] then [] else join CRLF bs @ CRLF"]) simp
qed

text \<open>
  Claim C1, as amended. For every list of events, the empty one included, the output of
  \<open>create_ics_from_events\<close> is a list of lines joined with CRLF: as a text it starts with
  the four header lines, each followed by CRLF, and ends with the footer line
  \<^verbatim>\<open>END:VCALENDAR\<close>; the lines are the four header lines, then nine lines per event, the
  block of the \<open>i\<close>-th event being the \<open>i\<close>-th block, from \<^verbatim>\<open>BEGIN:VEVENT\<close> to
  \<^verbatim>\<open>END:VEVENT\<close> and with that event's title in its \<^verbatim>\<open>SUMMARY\<close> line, then the footer
  line. When no title contains a CRLF sequence, splitting the output at CRLF gives back
  exactly these lines, and the output has exactly as many \<^verbatim>\<open>BEGIN:VEVENT\<close> and
  \<^verbatim>\<open>END:VEVENT\<close> lines as there are events.
\<close>

theorem create_ics_from_events_structure:
  "\<exists>ls body.
     fst (create_ics_from_events events w) = join CRLF ls \<and>
     fst (create_ics_from_events events w) =
       ''BEGIN:VCALENDAR'' @ CRLF @ ''VERSION:2.0'' @ CRLF @ ''PRODID:-//MyPythonScript//EN'' @ CRLF @
       ''CALSCALE:GREGORIAN'' @ CRLF @ body @ ''END:VCALENDAR'' \<and>
     length ls = 4 + 9 * length events + 1 \<and>
     take 4 ls = [''BEGIN:VCALENDAR'', ''VERSION:2.0'', ''PRODID:-//MyPythonScript//EN'',
                  ''CALSCALE:GREGORIAN''] \<and>
     drop (4 + 9 * length events) ls = [''END:VCALENDAR''] \<and>
     (\<forall>i<length events.
        take 9 (drop (4 + 9 * i) ls) =
          event_entry (strftime_basic (local_now w) @ ''Z'') (uid_at w i) (events ! i) \<and>
        ls ! (4 + 9 * i) = ''BEGIN:VEVENT'' \<and>
        ls ! (4 + 9 * i + 5) = ''SUMMARY:'' @ title (events ! i) \<and>
        ls ! (4 + 9 * i + 8) = ''END:VEVENT'') \<and>
     ((\<forall>e\<in>set events. \<not> has_crlf (title e)) \<longrightarrow>
        split_crlf (fst (create_ics_from_events events w)) = ls \<and>
        length (filter (\<lambda>l. l = ''BEGIN:VEVENT'')
          (split_crlf (fst (create_ics_from_events events w)))) = length events \<and>
        length (filter (\<lambda>l. l = ''END:VEVENT'')
          (split_crlf (fst (create_ics_from_events events w)))) = length events)"
proof -
  let ?out = "fst (create_ics_from_events events w)"
  let ?ts = "strftime_basic (local_now w) @ ''Z''"
  let ?bs = "event_blocks ?ts w events"
  let ?ls = "ics_header @ concat ?bs @ ics_footer"
  obtain body where c0: "?out =
       ''BEGIN:VCALENDAR'' @ CRLF @ ''VERSION:2.0'' @ CRLF @ ''PRODID:-//MyPythonScript//EN'' @ CRLF @
       ''CALSCALE:GREGORIAN'' @ CRLF @ body @ ''END:VCALENDAR''"
    using create_ics_text by blast
  have len9: "\<forall>b\<in>set ?bs. length b = 9"
    by (auto simp: event_blocks_def event_entry_length)
  have nb: "length ?bs = length events"
    by (simp add: event_blocks_def)
  have lc: "length (concat ?bs) = 9 * length events"
    using concat_blocks_length [OF len9] nb by simp
  have c1: "?out = join CRLF ?ls"
    by (rule create_ics_lines)
  have c3: "length ?ls = 4 + 9 * length events + 1"
    by (simp add: lc ics_header_def ics_footer_def)
  have c4: "take 4 ?ls = [''BEGIN:VCALENDAR'', ''VERSION:2.0'', ''PRODID:-//MyPythonScript//EN'',
                        ''CALSCALE:GREGORIAN'']"
    by (simp add: ics_header_def)
  have c5: "drop (4 + 9 * length events) ?ls = [''END:VCALENDAR'']"
    using drop_past_body [of ics_header 4 "concat ?bs" "9 * length events" ics_footer]
    by (simp add: lc ics_header_def ics_footer_def)
  have c6: "take 9 (drop (4 + 9 * i) ?ls) = event_entry ?ts (uid_at w i) (events ! i) \<and>
        ?ls ! (4 + 9 * i) = ''BEGIN:VEVENT'' \<and>
        ?ls ! (4 + 9 * i + 5) = ''SUMMARY:'' @ title (events ! i) \<and>
        ?ls ! (4 + 9 * i + 8) = ''END:VEVENT''" if i: "i < length events" for i
  proof -
    have "take 9 (drop (9 * i) (concat ?bs)) = ?bs ! i"
      using concat_blocks_nth [OF len9, of i] i nb by simp
    moreover have "?bs ! i = event_entry ?ts (uid_at w i) (events ! i)"
      using i by (simp add: event_blocks_def)
    moreover have "9 * i + 9 \<le> length (concat ?bs)"
      using i lc by simp
    ultimately have blk: "take 9 (drop (4 + 9 * i) ?ls) = event_entry ?ts (uid_at w i) (events ! i)"
      using take_in_body [of ics_header 4 "9 * i" 9 "concat ?bs" ics_footer]
      by (simp add: ics_header_def)
    define ls where "ls = ?ls"
    have bound: "4 + 9 * i + 9 \<le> length ls"
      using i c3 by (simp add: ls_def)
    have nth: "ls ! (4 + 9 * i + j) = take 9 (drop (4 + 9 * i) ls) ! j" if "j < 9" for j
      using that bound by simp
    have e: "take 9 (drop (4 + 9 * i) ls) = event_entry ?ts (uid_at w i) (events ! i)"
      using blk by (simp add: ls_def)
    have "ls ! (4 + 9 * i) = ''BEGIN:VEVENT''"
      using nth [of 0] by (simp add: e event_entry_def Let_def)
    moreover have "ls ! (4 + 9 * i + 5) = ''SUMMARY:'' @ title (events ! i)"
      using nth [of 5] by (simp add: e event_entry_def Let_def)
    moreover have "ls ! (4 + 9 * i + 8) = ''END:VEVENT''"
      using nth [of 8] by (simp add: e event_entry_def Let_def)
    ultimately show ?thesis
      using e by (simp add: ls_def)
  qed
  have cb: "length (filter (\<lambda>l. l = ''BEGIN:VEVENT'') ?ls) = length events"
  proof -
    have "length (filter (\<lambda>l. l = ''BEGIN:VEVENT'') (concat ?bs)) = length ?bs"
      by (rule concat_blocks_count) (auto simp: event_blocks_def event_entry_begin)
    then show ?thesis
      by (simp add: nb ics_header_def ics_footer_def)
  qed
  have ce: "length (filter (\<lambda>l. l = ''END:VEVENT'') ?ls) = length events"
  proof -
    have "length (filter (\<lambda>l. l = ''END:VEVENT'') (concat ?bs)) = length ?bs"
      by (rule concat_blocks_count) (auto simp: event_blocks_def event_entry_end)
    then show ?thesis
      by (simp add: nb ics_header_def ics_footer_def)
  qed
  have c7: "(\<forall>e\<in>set events. \<not> has_crlf (title e)) \<longrightarrow>
        split_crlf ?out = ?ls \<and>
        length (filter (\<lambda>l. l = ''BEGIN:VEVENT'') (split_crlf ?out)) = length events \<and>
        length (filter (\<lambda>l. l = ''END:VEVENT'') (split_crlf ?out)) = length events"
    using cb ce by (auto simp: split_create_ics simp del: filter_append)
  from c0 c1 c3 c4 c5 c6 c7 show ?thesis
    by blast
qed

text \<open>The theorem at a list of two different events, in a world that gives each its own
  identifier: the block of the first event comes first, that of the second event second.\<close>

theorem create_ics_from_events_structure_witness:
  "\<not> has_crlf (title market_day) \<and> \<not> has_crlf (title craft_fair) \<and>
   take 4 (split_crlf (fst (create_ics_from_events [market_day, craft_fair] counting_world))) =
     [''BEGIN:VCALENDAR'', ''VERSION:2.0'', ''PRODID:-//MyPythonScript//EN'', ''CALSCALE:GREGORIAN''] \<and>
   take 9 (drop 4 (split_crlf (fst (create_ics_from_events [market_day, craft_fair] counting_world)))) =
     [''BEGIN:VEVENT'', ''UID:01234567-89ab-4def-8123-456789abcdef'', ''DTSTAMP:20250301T093000Z'',
      ''DTSTART:20250304T080000'', ''DTEND:20250304T160000'', ''SUMMARY:Market Day'',
      ''DESCRIPTION:'', ''LOCATION:Leeds Kirkgate Market, Kirkgate, Leeds LS2 7HY, UK'',
      ''END:VEVENT''] \<and>
   take 9 (drop 13 (split_crlf (fst (create_ics_from_events [market_day, craft_fair] counting_world)))) =
     [''BEGIN:VEVENT'', ''UID:01234567-89ab-4def-8123-456789abcdf0'', ''DTSTAMP:20250301T093000Z'',
      ''DTSTART:20250315T100000'', ''DTEND:20250315T153000'', ''SUMMARY:Craft Fair'',
      ''DESCRIPTION:Stalls'' @ [CHR 0x5C, CHR ''n''] @ ''and music'',
      ''LOCATION:Leeds Kirkgate Market, Kirkgate, Leeds LS2 7HY, UK'',
      ''END:VEVENT''] \<and>
   drop 22 (split_crlf (fst (create_ics_from_events [market_day, craft_fair] counting_world))) =
     [''END:VCALENDAR''] \<and>
   length (filter (\<lambda>l. l = ''BEGIN:VEVENT'')
     (split_crlf (fst (create_ics_from_events [market_day, craft_fair] counting_world)))) = 2"
proof -
  let ?es = "[market_day, craft_fair]"
  let ?ts = "strftime_basic (local_now counting_world) @ ''Z''"
  have t: "\<not> has_crlf (title market_day)" "\<not> has_crlf (title craft_fair)"
    by (simp_all add: market_day_def craft_fair_def)
  then have h: "\<forall>e\<in>set ?es. \<not> has_crlf (title e)"
    by simp
  have e0: "event_entry ?ts (uid_at counting_world 0) (?es ! 0) =
     [''BEGIN:VEVENT'', ''UID:01234567-89ab-4def-8123-456789abcdef'', ''DTSTAMP:20250301T093000Z'',
      ''DTSTART:20250304T080000'', ''DTEND:20250304T160000'', ''SUMMARY:Market Day'',
      ''DESCRIPTION:'', ''LOCATION:Leeds Kirkgate Market, Kirkgate, Leeds LS2 7HY, UK'',
      ''END:VEVENT'']"
    by code_simp
  have e1: "event_entry ?ts (uid_at counting_world 1) (?es ! 1) =
     [''BEGIN:VEVENT'', ''UID:01234567-89ab-4def-8123-456789abcdf0'', ''DTSTAMP:20250301T093000Z'',
      ''DTSTART:20250315T100000'', ''DTEND:20250315T153000'', ''SUMMARY:Craft Fair'',
      ''DESCRIPTION:Stalls'' @ [CHR 0x5C, CHR ''n''] @ ''and music'',
      ''LOCATION:Leeds Kirkgate Market, Kirkgate, Leeds LS2 7HY, UK'',
      ''END:VEVENT'']"
    by code_simp
  from create_ics_from_events_structure [of ?es counting_world]
  obtain ls where
        a: "take 4 ls = [''BEGIN:VCALENDAR'', ''VERSION:2.0'', ''PRODID:-//MyPythonScript//EN'',
                  ''CALSCALE:GREGORIAN'']"
    and b: "drop (4 + 9 * length ?es) ls = [''END:VCALENDAR'']"
    and c: "\<forall>i<length ?es. take 9 (drop (4 + 9 * i) ls) = event_entry ?ts (uid_at counting_world i) (?es ! i)"
    and d: "(\<forall>e\<in>set ?es. \<not> has_crlf (title e)) \<longrightarrow>
        split_crlf (fst (create_ics_from_events ?es counting_world)) = ls \<and>
        length (filter (\<lambda>l. l = ''BEGIN:VEVENT'')
          (split_crlf (fst (create_ics_from_events ?es counting_world)))) = length ?es"
    by blast
  from d h have s: "split_crlf (fst (create_ics_from_events ?es counting_world)) = ls"
    and n: "length (filter (\<lambda>l. l = ''BEGIN:VEVENT'') ls) = 2"
    by auto
  from c have "take 9 (drop (4 + 9 * 0) ls) = event_entry ?ts (uid_at counting_world 0) (?es ! 0)"
    by (rule allE [of _ 0]) simp
  with e0 have b0: "take 9 (drop 4 ls) =
     [''BEGIN:VEVENT'', ''UID:01234567-89ab-4def-8123-456789abcdef'', ''DTSTAMP:20250301T093000Z'',
      ''DTSTART:20250304T080000'', ''DTEND:20250304T160000'', ''SUMMARY:Market Day'',
      ''DESCRIPTION:'', ''LOCATION:Leeds Kirkgate Market, Kirkgate, Leeds LS2 7HY, UK'',
      ''END:VEVENT'']"
    by simp
  from c have "take 9 (drop (4 + 9 * 1) ls) = event_entry ?ts (uid_at counting_world 1) (?es ! 1)"
    by (rule allE [of _ 1]) simp
  with e1 have b1: "take 9 (drop 13 ls) =
     [''BEGIN:VEVENT'', ''UID:01234567-89ab-4def-8123-456789abcdf0'', ''DTSTAMP:20250301T093000Z'',
      ''DTSTART:20250315T100000'', ''DTEND:20250315T153000'', ''SUMMARY:Craft Fair'',
      ''DESCRIPTION:Stalls'' @ [CHR 0x5C, CHR ''n''] @ ''and music'',
      ''LOCATION:Leeds Kirkgate Market, Kirkgate, Leeds LS2 7HY, UK'',
      ''END:VEVENT'']"
    by simp
  from b have b2: "drop 22 ls = [''END:VCALENDAR'']"
    by simp
  show ?thesis
    unfolding s using t a b0 b1 b2 n by (intro conjI)
qed

text \<open>
  Claim C1 as stated fails for the count of blocks. Line breaks are escaped in the
  description, not in the title: for one event whose title contains CRLF followed by
  \<^verbatim>\<open>END:VEVENT\<close>, CRLF and \<^verbatim>\<open>BEGIN:VEVENT\<close>, the output read line by line has two
  \<^verbatim>\<open>BEGIN:VEVENT\<close> lines.
\<close>

theorem create_ics_from_events_counterexample:
  "length (filter (\<lambda>l. l = ''BEGIN:VEVENT'')
     (split_crlf (fst (create_ics_from_events [injected_event] still_world)))) \<noteq> length [injected_event]"
  by code_simp

section \<open>The change detector\<close>

text \<open>What \<open>file_content_matches_existing\<close> returns: \<open>False\<close> when nothing is at the path,
  an error when a directory is there, and otherwise whether the file's text, after the
  newline translation of text mode, equals the content. For a stored text without
  carriage returns that is plain equality.\<close>

lemma universal_newlines_id: "CHR 0x0D \<notin> set s \<Longrightarrow> universal_newlines s = s"
  by (induction s rule: universal_newlines.induct) auto

lemma file_content_matches_existing_missing:
  "node_at (fs w) p = None \<Longrightarrow> file_content_matches_existing p c w = Inr False"
  by (simp add: file_content_matches_existing_def exists_path_def)

lemma file_content_matches_existing_file:
  "node_at (fs w) p = Some (File s) \<Longrightarrow>
   file_content_matches_existing p c w = Inr (universal_newlines s = c)"
  by (simp add: file_content_matches_existing_def exists_path_def read_text_def)

lemma file_content_matches_existing_dir:
  "node_at (fs w) p = Some Dir \<Longrightarrow> file_content_matches_existing p c w = Inl IsADirectoryError"
  by (simp add: file_content_matches_existing_def exists_path_def read_text_def)

lemma file_content_matches_existing_no_CR:
  "node_at (fs w) p = Some (File s) \<Longrightarrow> CHR 0x0D \<notin> set s \<Longrightarrow>
   file_content_matches_existing p c w = Inr (s = c)"
  by (simp add: file_content_matches_existing_file universal_newlines_id)

text \<open>
  Claim C8 fails on the code. The snapshot is written with \<open>write_text\<close> and compared
  with \<open>file_content_matches_existing\<close>; when the content contains a carriage return, the
  file that was just written with exactly this content is reported as different.
\<close>

theorem file_content_matches_existing_after_write:
  "file_content_matches_existing snapshot_path crlf_table
     (snd (write_text snapshot_path crlf_table
        (demo_world artifacts_only nine_thirty nine_thirty [] []))) = Inr False"
  by (simp add: write_text_def demo_world_def artifacts_only_def snapshot_path_def node_at_def
      parent_def file_content_matches_existing_def exists_path_def read_text_def
      crlf_table_def CRLF_def)

section \<open>The table extractor\<close>

text \<open>\<open>find_tag\<close> returns the first tag of the given name in document order. The
  extractor fails when the document has no \<^verbatim>\<open>main\<close> tag and returns the markup of the
  first table inside the first \<^verbatim>\<open>main\<close> tag when there is one; that markup starts with
  the table's own tag.\<close>

lemma find_tag_first:
  "find_tag name ns =
     (case filter (named name) (descendants ns) of [] \<Rightarrow> None | t # ts \<Rightarrow> Some t)"
  by (induction name ns rule: find_tag.induct) (auto split: list.splits option.splits)

lemma find_tag_named: "find_tag name ns = Some t \<Longrightarrow> named name t"
  by (induction name ns rule: find_tag.induct) (auto split: if_splits option.splits)

lemma find_html_events_table_no_main:
  "find_tag ''main'' (BeautifulSoup page) = None \<Longrightarrow>
   find_html_events_table BeautifulSoup page = Inl AttributeError"
  by (simp add: find_html_events_table_def)

lemma find_html_events_table_found:
  "find_tag ''main'' (BeautifulSoup page) = Some (Tag n attrs cs) \<Longrightarrow>
   find_tag ''table'' cs = Some t \<Longrightarrow>
   find_html_events_table BeautifulSoup page = Inr (decode t)"
  by (simp add: find_html_events_table_def)

lemma find_html_events_table_no_table:
  "find_tag ''main'' (BeautifulSoup page) = Some (Tag n attrs cs) \<Longrightarrow>
   find_tag ''table'' cs = None \<Longrightarrow>
   find_html_events_table BeautifulSoup page = Inr ''None''"
  by (simp add: find_html_events_table_def)

lemma decode_table_tag:
  "find_tag ''table'' cs = Some t \<Longrightarrow> take 6 (decode t) = ''<table''"
  using find_tag_named [of "''table''" cs t] by (cases t) auto

text \<open>
  Claim C3 fails on the code in its last case. For a document with a \<^verbatim>\<open>main\<close> element
  and no table inside it, the inner \<^verbatim>\<open>find\<close> returns \<^verbatim>\<open>None\<close> and \<^verbatim>\<open>str(None)\<close> is
  returned as if it were the table: the function returns the text \<^verbatim>\<open>None\<close> and does not
  fail.
\<close>

theorem find_html_events_table_without_table:
  "find_html_events_table (parser_for page_without_table soup_without_table) page_without_table
     = Inr ''None''"
  by (simp add: find_html_events_table_def parser_for_def soup_without_table_def)

section \<open>The creation timestamp\<close>

text \<open>Every block of one call carries the same \<^verbatim>\<open>DTSTAMP\<close> line, and the output depends
  on the world only through the clock that \<open>datetime_now\<close> reads and the identifiers
  drawn.\<close>

lemma event_entry_dtstamp: "event_entry ts u e ! 2 = ''DTSTAMP:'' @ ts"
  by (simp add: event_entry_def Let_def)

lemma event_blocks_dtstamp:
  "i < length events \<Longrightarrow>
   event_blocks (strftime_basic (local_now w) @ ''Z'') w events ! i ! 2 =
     ''DTSTAMP:'' @ strftime_basic (local_now w) @ ''Z''"
  by (simp add: event_blocks_def event_entry_dtstamp)

lemma create_ics_from_events_deterministic:
  assumes "local_now w = local_now w'" and "\<forall>i<length events. uid_at w i = uid_at w' i"
  shows "fst (create_ics_from_events events w) = fst (create_ics_from_events events w')"
proof -
  have "event_blocks ts w events = event_blocks ts w' events" for ts
    using assms(2) by (simp add: event_blocks_def)
  then show ?thesis
    by (simp add: create_ics_lines assms(1))
qed

text \<open>
  Claim C4 fails on the code. The stamp is taken with \<^verbatim>\<open>datetime.now()\<close>, the local wall
  clock, and written with the suffix \<^verbatim>\<open>Z\<close>. In a world whose local clock shows 10:30 when
  UTC is 09:30, the \<^verbatim>\<open>DTSTAMP\<close> line of the event says 10:30Z, not the current UTC time.
\<close>

theorem create_ics_from_events_local_dtstamp:
  "split_crlf (fst (create_ics_from_events [market_day]
      (demo_world artifacts_only ten_thirty nine_thirty [] []))) ! 6 = ''DTSTAMP:20250701T103000Z''
   \<and> ''DTSTAMP:'' @ strftime_basic (utc_now (demo_world artifacts_only ten_thirty nine_thirty [] [])) @ ''Z''
       = ''DTSTAMP:20250701T093000Z''"
  by code_simp

section \<open>What each step leaves alone\<close>

lemma mkdir_frame:
  "mkdir p w = (r, w') \<Longrightarrow>
   get_log w' = get_log w \<and> post_log w' = post_log w \<and> write_log w' = write_log w \<and>
   get_server w' = get_server w \<and> post_server w' = post_server w \<and> logged w' = logged w"
  by (auto simp: mkdir_def split: path.splits sum.splits)

lemma get_page_html_frame:
  "get_page_html url ua w = (r, w') \<Longrightarrow>
   post_log w' = post_log w \<and> write_log w' = write_log w \<and> fs w' = fs w \<and>
   post_server w' = post_server w \<and> logged w' = logged w"
  by (auto simp: get_page_html_def Let_def split: http_outcome.splits if_splits)

lemma get_page_html_log:
  "get_page_html url None w = (r, w') \<Longrightarrow> get_log w' = get_log w @ [(url, [])]"
  by (auto simp: get_page_html_def Let_def split: http_outcome.splits if_splits)

lemma write_text_frame:
  "write_text p s w = (r, w') \<Longrightarrow>
   get_log w' = get_log w \<and> post_log w' = post_log w \<and> post_server w' = post_server w \<and>
   logged w' = logged w"
  by (auto simp: write_text_def split: option.splits node.splits)

lemma get_openrouter_response_frame:
  "get_openrouter_response prompt model key w = (r, w') \<Longrightarrow>
   get_log w' = get_log w \<and> write_log w' = write_log w \<and> fs w' = fs w \<and>
   post_server w' = post_server w \<and> logged w' = logged w"
  by (auto simp: get_openrouter_response_def Let_def split: http_outcome.splits if_splits)

lemma get_events_month_frame:
  "get_events_month html key model w = (r, w') \<Longrightarrow>
   get_log w' = get_log w \<and> write_log w' = write_log w \<and> fs w' = fs w \<and>
   post_server w' = post_server w \<and> logged w' = logged w"
  by (auto simp: get_events_month_def Let_def split: prod.splits sum.splits
      dest: get_openrouter_response_frame)

lemma create_events_from_html_frame:
  "create_events_from_html html m key model w = (r, w') \<Longrightarrow>
   get_log w' = get_log w \<and> write_log w' = write_log w \<and> fs w' = fs w \<and>
   post_server w' = post_server w \<and> logged w' = logged w"
  by (auto simp: create_events_from_html_def Let_def split: prod.splits sum.splits
      dest: get_openrouter_response_frame)

lemma create_ics_from_events_frame:
  "create_ics_from_events es w = (r, w') \<Longrightarrow> w' = w\<lparr>drawn := drawn w + length es\<rparr>"
  by (auto simp: create_ics_from_events_def Let_def event_entries_eq)

section \<open>The page request\<close>

text \<open>Whatever the settings, a run that gets past creating the artifacts directory makes
  exactly one GET request: to the address written in \<open>main\<close>, with no headers.\<close>

lemma main_get_log:
  "get_log (snd (main BeautifulSoup settings w)) =
     (case fst (mkdir (artifacts_dir settings) w) of
        Inl e \<Rightarrow> get_log w
      | Inr u \<Rightarrow> get_log w @ [(''https://markets.leeds.gov.uk/whats-kirkgate'', [])])"
  unfolding main_def Let_def
  by (auto split: prod.splits sum.splits simp: info_def
      dest!: mkdir_frame get_page_html_log write_text_frame get_events_month_frame
        create_events_from_html_frame create_ics_from_events_frame)

lemma mkdir_existing: "fs w (Path False [d]) = Some Dir \<Longrightarrow> mkdir (Path False [d]) w = (Inr (), w)"
  by (simp add: mkdir_def os_mkdir_def node_at_def)

text \<open>
  Claim C5 fails on the code. With the events page configured as
  \<^verbatim>\<open>https://example.org/events\<close> and the scraper's identifying string as
  \<^verbatim>\<open>KirkgateBot/1.0\<close>, the one GET request of the run still goes to the address written
  in \<open>main\<close> and carries no \<^verbatim>\<open>User-Agent\<close> header: neither setting is read.
\<close>

theorem main_ignores_page_settings:
  "events_page_url demo_settings = ''https://example.org/events'' \<and>
   scraper_user_agent demo_settings = ''KirkgateBot/1.0'' \<and>
   get_log (snd (main (parser_for page_without_table soup_without_table) demo_settings
      (demo_world artifacts_only nine_thirty nine_thirty page_without_table []))) =
     [(''https://markets.leeds.gov.uk/whats-kirkgate'', [])]"
proof -
  let ?w = "demo_world artifacts_only nine_thirty nine_thirty page_without_table []"
  have "mkdir (artifacts_dir demo_settings) ?w = (Inr (), ?w)"
    by (simp add: demo_settings_def mkdir_existing demo_world_def artifacts_only_def)
  then show ?thesis
    by (simp add: main_get_log) (simp add: demo_settings_def demo_world_def)
qed

section \<open>The month resolver\<close>

text \<open>\<open>int_of_str\<close> reads back the decimal form of every integer of at most 4300 digits,
  and the month resolver returns \<open>py_int\<close> of the reply, with no check of its range.\<close>

lemma small_cases: "d < 10 \<Longrightarrow> d \<in> {0, 1, 2, 3, 4, 5, 6, 7, 8, 9::nat}"
  by auto

lemma digit_char_is_digit: "d < 10 \<Longrightarrow> is_digit (digit_char d)"
  using small_cases [of d] by (auto simp: is_digit_def digit_char_def)

lemma digit_val_digit_char: "d < 10 \<Longrightarrow> digit_val (digit_char d) = int d"
  using small_cases [of d] by (auto simp: digit_val_def digit_char_def)

lemma digits_of_digits: "list_all is_digit (digits_of n)"
proof (induction n rule: digits_of.induct)
  case (1 n)
  then show ?case
    by (subst digits_of.simps) (simp add: digit_char_is_digit)
qed

lemma digits_of_nonempty: "digits_of n \<noteq> []"
  by (subst digits_of.simps) simp

lemma int_of_digits_snoc: "int_of_digits (ds @ [c]) = 10 * int_of_digits ds + digit_val c"
  by (simp add: int_of_digits_def)

lemma int_of_digits_digits_of: "0 \<le> n \<Longrightarrow> int_of_digits (digits_of n) = n"
proof (induction n rule: digits_of.induct)
  case (1 n)
  show ?case
  proof (cases "n < 10")
    case True
    with 1(2) show ?thesis
      by (subst digits_of.simps) (simp add: int_of_digits_def digit_val_digit_char)
  next
    case False
    with 1 have "int_of_digits (digits_of (n div 10)) = n div 10"
      by simp
    with False 1(2) show ?thesis
      by (subst digits_of.simps) (simp add: int_of_digits_snoc digit_val_digit_char)
  qed
qed

lemma is_digit_facts:
  "is_digit c \<Longrightarrow> c \<noteq> CHR ''_'' \<and> c \<noteq> CHR ''-'' \<and> c \<noteq> CHR ''+'' \<and> \<not> is_ascii_space c \<and> (of_char c :: int) < 128"
  by (auto simp: is_digit_def is_ascii_space_def)

lemma digits_ok_digits: "ds \<noteq> [] \<Longrightarrow> list_all is_digit ds \<Longrightarrow> digits_ok ds"
  by (induction ds rule: digits_ok.induct) (auto dest: is_digit_facts)

lemma filter_digits: "list_all is_digit ds \<Longrightarrow> filter is_digit ds = ds"
  by (induction ds) auto

lemma dropWhile_hd: "s \<noteq> [] \<Longrightarrow> \<not> P (hd s) \<Longrightarrow> dropWhile P s = s"
  by (cases s) auto

lemma strip_id:
  assumes "s \<noteq> []" "\<not> is_ascii_space (hd s)" "\<not> is_ascii_space (last s)"
  shows "strip s = s"
proof -
  have "dropWhile is_ascii_space s = s"
    using assms(1,2) by (rule dropWhile_hd)
  moreover have "dropWhile is_ascii_space (rev s) = rev s"
    using assms(1,3) by (intro dropWhile_hd) (simp_all add: hd_rev)
  ultimately show ?thesis
    by (simp add: strip_def)
qed

lemma starts_with_single: "s \<noteq> [] \<Longrightarrow> starts_with [c] s = (hd s = c)"
  by (cases s) (auto simp: starts_with_def)

lemma no_high_digits: "list_all is_digit ds \<Longrightarrow> \<not> list_ex (\<lambda>c. (128::int) \<le> of_char c) ds"
  by (induction ds) (auto dest: is_digit_facts)

lemma digits_hd_last:
  assumes "ds \<noteq> []" "list_all is_digit ds"
  shows "is_digit (hd ds)" and "is_digit (last ds)"
  using assms by (auto simp: list_all_iff)

lemma int_of_str_digits:
  assumes "ds \<noteq> []" "list_all is_digit ds" "length ds \<le> 4300"
  shows "int_of_str ds = Inr (int_of_digits ds)"
proof -
  note hl = digits_hd_last [OF assms(1,2)]
  have st: "strip ds = ds"
    using assms(1) hl is_digit_facts by (intro strip_id) auto
  have sw: "\<not> starts_with ''-'' ds" "\<not> starts_with ''+'' ds"
    using assms(1) hl(1) is_digit_facts by (auto simp: starts_with_single)
  show ?thesis
    using assms sw
    by (simp add: int_of_str_def no_high_digits st digits_ok_digits filter_digits Let_def)
qed

lemma int_of_str_minus_digits:
  assumes "ds \<noteq> []" "list_all is_digit ds" "length ds \<le> 4300"
  shows "int_of_str (CHR ''-'' # ds) = Inr (- int_of_digits ds)"
proof -
  note hl = digits_hd_last [OF assms(1,2)]
  have "\<not> is_ascii_space (last (CHR ''-'' # ds))"
    using assms(1) hl(2) is_digit_facts by simp
  then have st: "strip (CHR ''-'' # ds) = CHR ''-'' # ds"
    by (intro strip_id) (simp_all add: is_ascii_space_def)
  have hi: "\<not> list_ex (\<lambda>c. (128::int) \<le> of_char c) (CHR ''-'' # ds)"
    using no_high_digits [OF assms(2)] by simp
  have sw: "starts_with ''-'' (CHR ''-'' # ds)"
    by (simp add: starts_with_def)
  show ?thesis
    using assms(3) hi sw
    by (simp add: int_of_str_def st digits_ok_digits [OF assms(1,2)] filter_digits [OF assms(2)]
        Let_def)
qed

lemma int_of_str_str_int:
  assumes "length (digits_of \<bar>n\<bar>) \<le> 4300"
  shows "int_of_str (str_int n) = Inr n"
proof (cases "n < 0")
  case True
  then have "\<bar>n\<bar> = - n" by simp
  with assms True show ?thesis
    by (simp add: str_int_def int_of_str_minus_digits digits_of_nonempty digits_of_digits
        int_of_digits_digits_of)
next
  case False
  then have "\<bar>n\<bar> = n" by simp
  with assms False show ?thesis
    by (simp add: str_int_def int_of_str_digits digits_of_nonempty digits_of_digits
        int_of_digits_digits_of)
qed

lemma get_events_month_result:
  "fst (get_events_month html key model w) =
     and_then (fst (get_openrouter_response (month_prompt_before @ html @ month_prompt_after) model key w)) py_int"
  by (auto simp: get_events_month_def Let_def and_then_def split: prod.splits sum.splits)

text \<open>
  Claim C2, as amended. When the completion service replies with a text, the month
  resolver returns what \<^verbatim>\<open>int\<close> makes of the reply: every integer written in decimal comes
  back as that integer (inside 1..12 or not), the reply \<^verbatim>\<open>7\<close> gives 7, and the reply
  \<^verbatim>\<open>July\<close> fails with \<^verbatim>\<open>ValueError\<close>.
\<close>

theorem get_events_month_returns_parsed_reply:
  assumes "fst (get_openrouter_response (month_prompt_before @ html @ month_prompt_after) model key w)
             = Inr (JString reply)"
    and "length (digits_of \<bar>n\<bar>) \<le> 4300"
  shows "fst (get_events_month html key model w) = int_of_str reply \<and>
         int_of_str (str_int n) = Inr n \<and>
         int_of_str ''7'' = Inr 7 \<and> int_of_str ''July'' = Inl ValueError"
proof -
  have "int_of_str ''7'' = Inr 7"
    by code_simp
  moreover have "int_of_str ''July'' = Inl ValueError"
    by code_simp
  ultimately show ?thesis
    using assms by (simp add: get_events_month_result and_then_def py_int_def int_of_str_str_int)
qed

text \<open>
  Claim C2 as stated fails: there is no range check, and the reply \<^verbatim>\<open>13\<close> makes the
  resolver return 13.
\<close>

theorem get_events_month_thirteen:
  "fst (get_events_month empty_table ''sk-test'' ''some/model''
     (demo_world artifacts_only nine_thirty nine_thirty [] [''13''])) = Inr 13 \<and> \<not> (13 \<le> (12::int))"
  by code_simp

text \<open>The theorem at a service that replies \<^verbatim>\<open>7\<close>, and at the integer 2025.\<close>

theorem get_events_month_returns_parsed_reply_witness:
  "fst (get_openrouter_response (month_prompt_before @ empty_table @ month_prompt_after) ''some/model'' ''sk-test''
      (demo_world artifacts_only nine_thirty nine_thirty [] [''7''])) = Inr (JString ''7'') \<and>
   length (digits_of \<bar>2025\<bar>) \<le> 4300 \<and>
   fst (get_events_month empty_table ''sk-test'' ''some/model''
      (demo_world artifacts_only nine_thirty nine_thirty [] [''7''])) = Inr 7 \<and>
   int_of_str (str_int 2025) = Inr 2025"
proof -
  have h1: "fst (get_openrouter_response (month_prompt_before @ empty_table @ month_prompt_after) ''some/model'' ''sk-test''
      (demo_world artifacts_only nine_thirty nine_thirty [] [''7''])) = Inr (JString ''7'')"
    by code_simp
  have h2: "length (digits_of \<bar>2025\<bar>) \<le> 4300"
    by code_simp
  have "int_of_str ''7'' = Inr 7"
    by code_simp
  with get_events_month_returns_parsed_reply [OF h1 h2] h1 h2 show ?thesis
    by simp
qed

section \<open>The calendar grid in the extraction prompt\<close>

text \<open>\<open>formatmonth\<close> prints each month of 2025 as the reference grid has it, and the
  event extractor sends one request whose prompt is the template with that grid and
  the table in it.\<close>

lemma formatmonth_2025:
  "formatmonth 2025 1 = Inr (text_calendar_2025 ! 0)"
  "formatmonth 2025 2 = Inr (text_calendar_2025 ! 1)"
  "formatmonth 2025 3 = Inr (text_calendar_2025 ! 2)"
  "formatmonth 2025 4 = Inr (text_calendar_2025 ! 3)"
  "formatmonth 2025 5 = Inr (text_calendar_2025 ! 4)"
  "formatmonth 2025 6 = Inr (text_calendar_2025 ! 5)"
  "formatmonth 2025 7 = Inr (text_calendar_2025 ! 6)"
  "formatmonth 2025 8 = Inr (text_calendar_2025 ! 7)"
  "formatmonth 2025 9 = Inr (text_calendar_2025 ! 8)"
  "formatmonth 2025 10 = Inr (text_calendar_2025 ! 9)"
  "formatmonth 2025 11 = Inr (text_calendar_2025 ! 10)"
  "formatmonth 2025 12 = Inr (text_calendar_2025 ! 11)"
  by code_simp+

lemma formatmonth_2025_month:
  assumes "1 \<le> m" "m \<le> 12"
  shows "formatmonth 2025 m = Inr (text_calendar_2025 ! nat (m - 1))"
proof -
  from assms have "m = 1 \<or> m = 2 \<or> m = 3 \<or> m = 4 \<or> m = 5 \<or> m = 6 \<or> m = 7 \<or> m = 8 \<or>
      m = 9 \<or> m = 10 \<or> m = 11 \<or> m = 12"
    by arith
  then show ?thesis
    by (elim disjE) (simp_all add: formatmonth_2025)
qed

lemma get_openrouter_response_log:
  "post_log (snd (get_openrouter_response prompt model key w)) =
     post_log w @ [completion_request prompt model key]"
  by (simp add: get_openrouter_response_def completion_request_def Let_def
      split: http_outcome.splits)

lemma create_events_from_html_log:
  assumes "formatmonth 2025 m = Inr cal"
  shows "post_log (snd (create_events_from_html html m key model w)) =
     post_log w @ [completion_request (events_prompt_1 @ cal @ events_prompt_2 @ html @ events_prompt_3) model key]"
  using get_openrouter_response_log
    [of "events_prompt_1 @ cal @ events_prompt_2 @ html @ events_prompt_3" model key w]
  by (auto simp: create_events_from_html_def assms Let_def split: prod.splits sum.splits)

text \<open>
  Claim C10. For every month \<open>m\<close> from 1 to 12 and every table, the grid that
  \<open>create_events_from_html\<close> puts into its prompt is the text calendar of month \<open>m\<close> of
  the year 2025, in every world: the request is the same whatever the clocks show.
\<close>

theorem create_events_from_html_calendar_2025:
  assumes "1 \<le> m" and "m \<le> 12"
  shows "formatmonth 2025 m = Inr (text_calendar_2025 ! nat (m - 1)) \<and>
    post_log (snd (create_events_from_html html m key model w)) =
      post_log w @
        [completion_request
           (events_prompt_1 @ text_calendar_2025 ! nat (m - 1) @ events_prompt_2 @ html @ events_prompt_3)
           model key] \<and>
    last (post_log (snd (create_events_from_html html m key model
            (w\<lparr>local_now := t1, utc_now := t2\<rparr>)))) =
      last (post_log (snd (create_events_from_html html m key model w)))"
  using formatmonth_2025_month [OF assms]
  by (simp add: create_events_from_html_log)

text \<open>The theorem at March.\<close>

theorem create_events_from_html_calendar_2025_witness:
  "(1::int) \<le> 3 \<and> (3::int) \<le> 12 \<and>
   formatmonth 2025 3 =
     Inr ''     March 2025\<newline>Mo Tu We Th Fr Sa Su\<newline>                1  2\<newline> 3  4  5  6  7  8  9\<newline>10 11 12 13 14 15 16\<newline>17 18 19 20 21 22 23\<newline>24 25 26 27 28 29 30\<newline>31\<newline>''"
proof -
  have h1: "(1::int) \<le> 3" and h2: "(3::int) \<le> 12"
    by simp_all
  have cal: "text_calendar_2025 ! nat (3 - 1) = ''     March 2025\<newline>Mo Tu We Th Fr Sa Su\<newline>                1  2\<newline> 3  4  5  6  7  8  9\<newline>10 11 12 13 14 15 16\<newline>17 18 19 20 21 22 23\<newline>24 25 26 27 28 29 30\<newline>31\<newline>''"
    by code_simp
  have "formatmonth 2025 3 = Inr (text_calendar_2025 ! nat (3 - 1))"
    using create_events_from_html_calendar_2025 [OF h1 h2, of "[]" "[]" "[]" still_world undefined undefined]
    by (rule conjunct1)
  with h1 h2 cal show ?thesis
    by (simp only: simp_thms)
qed

section \<open>The example of the specification: one event, extracted and serialized\<close>

lemma market_day_reply_events:
  "and_then (loads_value (JString market_day_reply))
     (\<lambda>parsed_ai_response. and_then (iterate parsed_ai_response) validate_all) = Inr [market_day]"
  by code_simp

lemma market_day_entry:
  "event_entry ts u market_day =
     [''BEGIN:VEVENT'', ''UID:'' @ str_uuid u, ''DTSTAMP:'' @ ts,
      ''DTSTART:20250304T080000'', ''DTEND:20250304T160000'', ''SUMMARY:Market Day'',
      ''DESCRIPTION:'', ''LOCATION:Leeds Kirkgate Market, Kirkgate, Leeds LS2 7HY, UK'',
      ''END:VEVENT'']"
proof -
  have "strftime_basic (Datetime (Date 2025 3 4) (Time 8 0 0 0)) = ''20250304T080000''"
    by code_simp
  moreover have "strftime_basic (Datetime (Date 2025 3 4) (Time 16 0 0 0)) = ''20250304T160000''"
    by code_simp
  ultimately show ?thesis
    by (simp add: event_entry_def market_day_def combine_def replace_def)
qed

lemma event_entry_description:
  "event_entry ts u e ! 6 =
     ''DESCRIPTION:'' @ replace LF [CHR 0x5C, CHR ''n''] (case description e of None \<Rightarrow> [] | Some d \<Rightarrow> d)"
  by (simp add: event_entry_def Let_def)

lemma create_events_from_html_result:
  assumes "formatmonth 2025 m = Inr cal"
    and "fst (get_openrouter_response (events_prompt_1 @ cal @ events_prompt_2 @ html @ events_prompt_3) model key w) = Inr reply"
  shows "fst (create_events_from_html html m key model w) =
     and_then (loads_value reply) (\<lambda>parsed_ai_response. and_then (iterate parsed_ai_response) validate_all)"
  using assms
  by (auto simp: create_events_from_html_def Let_def split: prod.splits sum.splits)

lemma market_day_lines:
  "split_crlf (fst (create_ics_from_events [market_day] w)) =
     [''BEGIN:VCALENDAR'', ''VERSION:2.0'', ''PRODID:-//MyPythonScript//EN'', ''CALSCALE:GREGORIAN'',
      ''BEGIN:VEVENT'', ''UID:'' @ str_uuid (uid_at w 0),
      ''DTSTAMP:'' @ strftime_basic (local_now w) @ ''Z'',
      ''DTSTART:20250304T080000'', ''DTEND:20250304T160000'', ''SUMMARY:Market Day'',
      ''DESCRIPTION:'', ''LOCATION:Leeds Kirkgate Market, Kirkgate, Leeds LS2 7HY, UK'',
      ''END:VEVENT'', ''END:VCALENDAR'']"
proof -
  have "\<forall>e\<in>set [market_day]. \<not> has_crlf (title e)"
    by (simp add: market_day_def)
  then show ?thesis
    by (simp add: split_create_ics event_blocks_def market_day_entry ics_header_def ics_footer_def)
qed

text \<open>
  Claim C9. When the completion service answers the extraction prompt with the JSON array
  of the specification's example, \<open>create_events_from_html\<close> returns exactly one event
  with those field values, and \<open>create_ics_from_events\<close> of that list, in any world,
  emits a single \<^verbatim>\<open>VEVENT\<close> with the lines \<^verbatim>\<open>DTSTART:20250304T080000\<close>,
  \<^verbatim>\<open>DTEND:20250304T160000\<close> and an empty \<^verbatim>\<open>DESCRIPTION:\<close>. An absent description is
  written as the empty string, a line feed inside a description as backslash and
  \<^verbatim>\<open>n\<close>, and no description line contains a line feed.
\<close>

theorem market_day_reply_extracted_and_serialized:
  assumes "formatmonth 2025 m = Inr cal"
    and "fst (get_openrouter_response
           (events_prompt_1 @ cal @ events_prompt_2 @ html @ events_prompt_3) model key w)
         = Inr (JString market_day_reply)"
  shows "fst (create_events_from_html html m key model w) = Inr [market_day] \<and>
    split_crlf (fst (create_ics_from_events [market_day] w')) =
      [''BEGIN:VCALENDAR'', ''VERSION:2.0'', ''PRODID:-//MyPythonScript//EN'', ''CALSCALE:GREGORIAN'',
       ''BEGIN:VEVENT'', ''UID:'' @ str_uuid (uid_at w' 0),
       ''DTSTAMP:'' @ strftime_basic (local_now w') @ ''Z'',
       ''DTSTART:20250304T080000'', ''DTEND:20250304T160000'', ''SUMMARY:Market Day'',
       ''DESCRIPTION:'', ''LOCATION:Leeds Kirkgate Market, Kirkgate, Leeds LS2 7HY, UK'',
       ''END:VEVENT'', ''END:VCALENDAR''] \<and>
    event_entry ts u (e\<lparr>description := None\<rparr>) ! 6 = ''DESCRIPTION:'' \<and>
    event_entry ts u (e\<lparr>description := Some (''a'' @ [CHR 0x0A] @ ''b'')\<rparr>) ! 6 =
      ''DESCRIPTION:a'' @ [CHR 0x5C, CHR ''n''] @ ''b'' \<and>
    CHR 0x0A \<notin> set (event_entry ts u e ! 6)"
proof -
  have "fst (create_events_from_html html m key model w) = Inr [market_day]"
    using create_events_from_html_result [OF assms] by (simp add: market_day_reply_events)
  moreover have "CHR 0x0A \<notin> set (event_entry ts u e ! 6)"
    by (simp add: event_entry_description replace_no_LF)
  ultimately show ?thesis
    by (simp add: market_day_lines event_entry_description replace_def LF_def)
qed

text \<open>The theorem at a service that gives this reply, for March.\<close>

theorem market_day_reply_extracted_and_serialized_witness:
  "formatmonth 2025 3 = Inr (text_calendar_2025 ! 2) \<and>
   fst (get_openrouter_response
          (events_prompt_1 @ text_calendar_2025 ! 2 @ events_prompt_2 @ empty_table @ events_prompt_3)
          ''some/model'' ''sk-test''
          (demo_world artifacts_only nine_thirty nine_thirty [] [market_day_reply]))
     = Inr (JString market_day_reply) \<and>
   fst (create_events_from_html empty_table 3 ''sk-test'' ''some/model''
          (demo_world artifacts_only nine_thirty nine_thirty [] [market_day_reply]))
     = Inr [\<lparr>date = Date 2025 3 4, title = ''Market Day'', description = None,
              start_time = Time 8 0 0 0, end_time = Time 16 0 0 0\<rparr>]"
proof -
  have h1: "formatmonth 2025 3 = Inr (text_calendar_2025 ! 2)"
    by code_simp
  have h2: "fst (get_openrouter_response
          (events_prompt_1 @ text_calendar_2025 ! 2 @ events_prompt_2 @ empty_table @ events_prompt_3)
          ''some/model'' ''sk-test''
          (demo_world artifacts_only nine_thirty nine_thirty [] [market_day_reply]))
     = Inr (JString market_day_reply)"
    by code_simp
  from market_day_reply_extracted_and_serialized [OF h1 h2] h1 h2 show ?thesis
    by (simp add: market_day_def)
qed

section \<open>Failing runs and the calendar file\<close>

text \<open>Creating directories never changes or creates a file; a failed write changes
  nothing; the other steps do not touch the file system at all.\<close>

lemma os_mkdir_Inr: "os_mkdir p f = Inr f' \<Longrightarrow> node_at f p = None \<and> f' = f(p \<mapsto> Dir)"
  by (auto simp: os_mkdir_def split: if_splits option.splits node.splits)

lemma node_at_upd_Dir: "node_at (f(p \<mapsto> Dir)) q = (if q = p then Some Dir else node_at f q)"
  by (auto simp: node_at_def split: path.splits)

lemma os_mkdir_files:
  assumes "os_mkdir p f = Inr f'"
  shows "(node_at f' q = Some (File s)) = (node_at f q = Some (File s))"
proof -
  from os_mkdir_Inr [OF assms] have n: "node_at f p = None" and u: "f' = f(p \<mapsto> Dir)"
    by simp_all
  show ?thesis
    using n by (cases "q = p") (simp_all add: u node_at_upd_Dir)
qed

lemma mkdir_rev_files:
  "mkdir_rev a rps f = Inr f' \<Longrightarrow> (node_at f' q = Some (File s)) = (node_at f q = Some (File s))"
proof (induction rps arbitrary: f f')
  case Nil
  then show ?case by simp
next
  case (Cons x rest)
  then show ?case
    by (auto simp: Let_def os_mkdir_files split: sum.splits if_splits)
qed

lemma file_at_eqI:
  assumes "\<And>s. (node_at (fs w') q = Some (File s)) = (node_at (fs w) q = Some (File s))"
  shows "file_at w' q = file_at w q"
proof (cases "\<exists>s. node_at (fs w) q = Some (File s)")
  case True
  then obtain s where "node_at (fs w) q = Some (File s)" ..
  moreover from this have "node_at (fs w') q = Some (File s)"
    using assms by simp
  ultimately show ?thesis
    by (simp add: file_at_def)
next
  case False
  moreover from this have "\<not> (\<exists>s. node_at (fs w') q = Some (File s))"
    using assms by simp
  ultimately show ?thesis
    by (auto simp: file_at_def split: option.splits node.splits)
qed

lemma mkdir_file_at:
  assumes "mkdir p w = (r, w')"
  shows "file_at w' q = file_at w q"
proof (rule file_at_eqI)
  fix s
  show "(node_at (fs w') q = Some (File s)) = (node_at (fs w) q = Some (File s))"
    using assms by (auto simp: mkdir_def mkdir_rev_files split: path.splits sum.splits)
qed

lemma write_text_cases:
  "write_text p s w = (r, w') \<Longrightarrow>
   (\<exists>e. r = Inl e \<and> w' = w) \<or>
   (r = Inr () \<and> w' = w\<lparr>fs := (fs w)(p \<mapsto> File s), write_log := write_log w @ [(p, s)]\<rparr>)"
  by (auto simp: write_text_def split: option.splits node.splits)

lemma node_at_upd_other: "q \<noteq> p \<Longrightarrow> node_at (f(p \<mapsto> x)) q = node_at f q"
  by (auto simp: node_at_def split: path.splits)

lemma write_text_file_at:
  "write_text p s w = (r, w') \<Longrightarrow> q \<noteq> p \<Longrightarrow> file_at w' q = file_at w q"
  by (auto dest!: write_text_cases simp: file_at_def node_at_upd_other)

lemma write_text_failed: "write_text p s w = (Inl e, w') \<Longrightarrow> w' = w"
  by (auto dest!: write_text_cases)

lemma write_text_log:
  "write_text p s w = (Inr u, w') \<Longrightarrow> write_log w' = write_log w @ [(p, s)]"
  by (auto dest!: write_text_cases)

lemma get_page_html_file_at: "get_page_html url ua w = (r, w') \<Longrightarrow> file_at w' q = file_at w q"
  by (auto dest!: get_page_html_frame simp: file_at_def)

lemma get_events_month_file_at:
  "get_events_month html key model w = (r, w') \<Longrightarrow> file_at w' q = file_at w q"
  by (auto dest!: get_events_month_frame simp: file_at_def)

lemma create_events_from_html_file_at:
  "create_events_from_html html m key model w = (r, w') \<Longrightarrow> file_at w' q = file_at w q"
  by (auto dest!: create_events_from_html_frame simp: file_at_def)

lemma create_ics_from_events_file_at:
  "create_ics_from_events es w = (r, w') \<Longrightarrow> file_at w' q = file_at w q \<and> write_log w' = write_log w"
  by (auto dest!: create_ics_from_events_frame simp: file_at_def)

text \<open>\<open>main\<close> is its first five steps followed by \<open>main_tail\<close>.\<close>

lemma main_unfold:
  "main BeautifulSoup settings w =
     (case mkdir (artifacts_dir settings) w of
        (Inl e, w1) \<Rightarrow> (Inl e, w1)
      | (Inr u1, w1) \<Rightarrow>
     (case get_page_html ''https://markets.leeds.gov.uk/whats-kirkgate'' None w1 of
        (Inl e, w2) \<Rightarrow> (Inl e, w2)
      | (Inr page, w2) \<Rightarrow>
     (case find_html_events_table BeautifulSoup page of
        Inl e \<Rightarrow> (Inl e, w2)
      | Inr events_table_html \<Rightarrow>
     (case file_content_matches_existing
             (joinpath (artifacts_dir settings) (html_file_name settings)) events_table_html w2 of
        Inl e \<Rightarrow> (Inl e, w2)
      | Inr unchanged \<Rightarrow>
          if unchanged
          then (Inr (), info ''No changes detected in events HTML. Exiting.'' w2)
          else
     (case write_text (joinpath (artifacts_dir settings) (html_file_name settings))
             events_table_html w2 of
        (Inl e, w3) \<Rightarrow> (Inl e, w3)
      | (Inr u3, w3) \<Rightarrow> main_tail settings events_table_html w3)))))"
  unfolding main_def main_tail_def Let_def ..

text \<open>When the tail of \<open>main\<close> fails, nothing was written; when \<open>main\<close> fails, the only
  write that can have happened is that of the snapshot.\<close>

lemma main_tail_failure:
  assumes "main_tail settings t w = (Inl e, w')"
  shows "write_log w' = write_log w \<and> file_at w' q = file_at w q"
proof -
  let ?key = "openrouter_api_key settings" and ?model = "openrouter_model settings"
  obtain r4 w4 where s4: "get_events_month t ?key ?model w = (r4, w4)"
    by force
  note f4 = get_events_month_frame [OF s4] get_events_month_file_at [OF s4, of q]
  show ?thesis
  proof (cases r4)
    case (Inl e4)
    with assms s4 have "w' = w4"
      by (simp add: main_tail_def)
    with f4 show ?thesis by simp
  next
    case m: (Inr month_number)
    obtain r5 w5 where s5: "create_events_from_html t month_number ?key ?model w4 = (r5, w5)"
      by force
    note f5 = create_events_from_html_frame [OF s5] create_events_from_html_file_at [OF s5, of q]
    show ?thesis
    proof (cases r5)
      case (Inl e5)
      with assms s4 m s5 have "w' = w5"
        by (simp add: main_tail_def)
      with f4 f5 show ?thesis by simp
    next
      case ev: (Inr events)
      obtain ics w6 where s6: "create_ics_from_events events w5 = (ics, w6)"
        by force
      note f6 = create_ics_from_events_file_at [OF s6, of q]
      obtain r7 w7 where s7: "write_text (joinpath (artifacts_dir settings) (ics_file_name settings)) ics w6 = (r7, w7)"
        by force
      from assms s4 m s5 ev s6 s7 obtain e7 where "r7 = Inl e7" and "w' = w7"
        by (cases r7) (auto simp: main_tail_def)
      with s7 have "w' = w6"
        by (simp add: write_text_failed)
      with f4 f5 f6 show ?thesis by simp
    qed
  qed
qed

lemma main_failure:
  assumes "main BeautifulSoup settings w = (Inl e, w')"
  shows "(write_log w' = write_log w \<or>
          (\<exists>table. write_log w' =
             write_log w @ [(joinpath (artifacts_dir settings) (html_file_name settings), table)])) \<and>
         (joinpath (artifacts_dir settings) (ics_file_name settings) \<noteq>
            joinpath (artifacts_dir settings) (html_file_name settings) \<longrightarrow>
          file_at w' (joinpath (artifacts_dir settings) (ics_file_name settings)) =
          file_at w (joinpath (artifacts_dir settings) (ics_file_name settings)))"
proof -
  let ?snap = "joinpath (artifacts_dir settings) (html_file_name settings)"
  let ?ics = "joinpath (artifacts_dir settings) (ics_file_name settings)"
  obtain r1 w1 where s1: "mkdir (artifacts_dir settings) w = (r1, w1)"
    by force
  note f1 = mkdir_frame [OF s1] mkdir_file_at [OF s1, of ?ics]
  show ?thesis
  proof (cases r1)
    case (Inl e1)
    with assms s1 have "w' = w1"
      by (simp add: main_unfold)
    with f1 show ?thesis by simp
  next
    case u1: (Inr u)
    obtain r2 w2 where s2: "get_page_html ''https://markets.leeds.gov.uk/whats-kirkgate'' None w1 = (r2, w2)"
      by force
    note f2 = get_page_html_frame [OF s2] get_page_html_file_at [OF s2, of ?ics]
    show ?thesis
    proof (cases r2)
      case (Inl e2)
      with assms s1 u1 s2 have "w' = w2"
        by (simp add: main_unfold)
      with f1 f2 show ?thesis by simp
    next
      case pg: (Inr page)
      show ?thesis
      proof (cases "find_html_events_table BeautifulSoup page")
        case (Inl e3)
        with assms s1 u1 s2 pg have "w' = w2"
          by (simp add: main_unfold)
        with f1 f2 show ?thesis by simp
      next
        case tb: (Inr table)
        show ?thesis
        proof (cases "file_content_matches_existing ?snap table w2")
          case (Inl e4)
          with assms s1 u1 s2 pg tb have "w' = w2"
            by (simp add: main_unfold)
          with f1 f2 show ?thesis by simp
        next
          case un: (Inr unchanged)
          with assms s1 u1 s2 pg tb have nu: "\<not> unchanged"
            by (auto simp: main_unfold)
          obtain r3 w3 where s3: "write_text ?snap table w2 = (r3, w3)"
            by force
          show ?thesis
          proof (cases r3)
            case (Inl e5)
            with assms s1 u1 s2 pg tb un nu s3 have "w' = w3"
              by (simp add: main_unfold)
            with s3 Inl have "w' = w2"
              by (simp add: write_text_failed)
            with f1 f2 show ?thesis by simp
          next
            case (Inr u3)
            with assms s1 u1 s2 pg tb un nu s3 have t: "main_tail settings table w3 = (Inl e, w')"
              by (simp add: main_unfold)
            note ft = main_tail_failure [OF t, of ?ics]
            from s3 Inr have l3: "write_log w3 = write_log w2 @ [(?snap, table)]"
              by (simp add: write_text_log)
            have "?ics \<noteq> ?snap \<Longrightarrow> file_at w3 ?ics = file_at w2 ?ics"
              using write_text_file_at [OF s3] by simp
            with f1 f2 ft l3 show ?thesis by auto
          qed
        qed
      qed
    qed
  qed
qed

text \<open>A failure of the month resolver or of the event extractor is the failure of the
  run, and the event extractor fails when the reply is not JSON or when an element of
  the array does not validate.\<close>

lemma month_failure_fails_run:
  "get_events_month t (openrouter_api_key settings) (openrouter_model settings) w3 = (Inl e, w4) \<Longrightarrow>
   main_tail settings t w3 = (Inl e, w4)"
  by (simp add: main_tail_def)

lemma extraction_failure_fails_run:
  "get_events_month t (openrouter_api_key settings) (openrouter_model settings) w3 = (Inr m, w4) \<Longrightarrow>
   create_events_from_html t m (openrouter_api_key settings) (openrouter_model settings) w4 = (Inl e, w5) \<Longrightarrow>
   main_tail settings t w3 = (Inl e, w5)"
  by (simp add: main_tail_def)

lemma validate_all_failure:
  "model_validate v = Inl e \<Longrightarrow> \<exists>e'. validate_all (vs @ v # rest) = Inl e'"
  by (induction vs) (auto split: sum.splits)

lemma create_events_from_html_failures:
  assumes "fst (get_openrouter_response prompt model key w) = Inr reply"
    and "formatmonth 2025 m = Inr cal"
    and "prompt = events_prompt_1 @ cal @ events_prompt_2 @ html @ events_prompt_3"
  shows "loads_value reply = Inl e \<Longrightarrow> fst (create_events_from_html html m key model w) = Inl e"
    and "loads_value reply = Inr (JArray (vs @ v # rest)) \<Longrightarrow> model_validate v = Inl e \<Longrightarrow>
         \<exists>e'. fst (create_events_from_html html m key model w) = Inl e'"
proof -
  have r: "fst (create_events_from_html html m key model w) =
     and_then (loads_value reply) (\<lambda>parsed_ai_response. and_then (iterate parsed_ai_response) validate_all)"
    using assms
    by (auto simp: create_events_from_html_def Let_def split: prod.splits sum.splits)
  show "loads_value reply = Inl e \<Longrightarrow> fst (create_events_from_html html m key model w) = Inl e"
    by (simp add: r and_then_def)
  show "loads_value reply = Inr (JArray (vs @ v # rest)) \<Longrightarrow> model_validate v = Inl e \<Longrightarrow>
         \<exists>e'. fst (create_events_from_html html m key model w) = Inl e'"
    using validate_all_failure [of v e vs rest] by (auto simp: r and_then_def iterate_def)
qed

text \<open>
  Claim C7. In every run that fails, in particular when month resolution, event
  extraction, JSON parsing or the validation of an event fails, the calendar file is not
  written: the only write such a run can have made is that of the snapshot, and the
  calendar file (a file other than the snapshot) has the content it had before. The
  calendar is written by the last step of \<open>main_tail\<close>, after the whole event list
  has been parsed and validated. The failure is one that the model covers: where the
  model answers \<open>Unmodelled\<close> it makes no statement about the run.
\<close>

theorem main_failure_leaves_calendar:
  assumes "fst (main BeautifulSoup settings w) = Inl e" and "e \<noteq> Unmodelled"
  shows "(write_log (snd (main BeautifulSoup settings w)) = write_log w \<or>
          (\<exists>table. write_log (snd (main BeautifulSoup settings w)) =
             write_log w @ [(joinpath (artifacts_dir settings) (html_file_name settings), table)])) \<and>
         (joinpath (artifacts_dir settings) (ics_file_name settings) \<noteq>
            joinpath (artifacts_dir settings) (html_file_name settings) \<longrightarrow>
          file_at (snd (main BeautifulSoup settings w))
            (joinpath (artifacts_dir settings) (ics_file_name settings)) =
          file_at w (joinpath (artifacts_dir settings) (ics_file_name settings)))"
proof -
  from assms(1) have "main BeautifulSoup settings w = (Inl e, snd (main BeautifulSoup settings w))"
    by (metis prod.collapse)
  then show ?thesis
    by (rule main_failure)
qed

text \<open>The theorem at a run whose month reply is \<^verbatim>\<open>July\<close>: the run fails with
  \<^verbatim>\<open>ValueError\<close>, only the snapshot was written, and the old calendar is still there.\<close>

theorem main_failure_leaves_calendar_witness:
  "fst (main (parser_for table_page table_soup) demo_settings
         (demo_world with_old_calendar nine_thirty nine_thirty table_page [''July''])) = Inl ValueError \<and>
   write_log (snd (main (parser_for table_page table_soup) demo_settings
         (demo_world with_old_calendar nine_thirty nine_thirty table_page [''July'']))) =
     [(snapshot_path, ''<table><tr><td>Market Day</td></tr></table>'')] \<and>
   file_at (snd (main (parser_for table_page table_soup) demo_settings
         (demo_world with_old_calendar nine_thirty nine_thirty table_page [''July''])))
     calendar_path = Some ''OLD''"
proof -
  let ?W = "demo_world with_old_calendar nine_thirty nine_thirty table_page [''July'']"
  let ?P = "parser_for table_page table_soup"
  have h: "fst (main ?P demo_settings ?W) = Inl ValueError"
    by code_simp
  have l: "write_log (snd (main ?P demo_settings ?W)) =
     [(snapshot_path, ''<table><tr><td>Market Day</td></tr></table>'')]"
    by code_simp
  have p: "joinpath (artifacts_dir demo_settings) (ics_file_name demo_settings) = calendar_path"
       "joinpath (artifacts_dir demo_settings) (html_file_name demo_settings) = snapshot_path"
       "calendar_path \<noteq> snapshot_path"
    by (simp_all add: joinpath_def demo_settings_def calendar_path_def snapshot_path_def)
  have o: "file_at ?W calendar_path = Some ''OLD''"
    by (simp add: file_at_def demo_world_def with_old_calendar_def calendar_path_def node_at_def)
  have n: "ValueError \<noteq> Unmodelled"
    by simp
  from main_failure_leaves_calendar [OF h n] p o h l show ?thesis
    by simp
qed

section \<open>The unchanged page\<close>

text \<open>When the text read back from the snapshot file equals the extracted table, the run
  ends after the page request: it succeeds, logs that nothing changed, makes no request
  to the completion service, writes nothing and leaves every file as it was.\<close>

lemma main_short_circuit:
  assumes "mkdir (artifacts_dir settings) w = (Inr (), w1)"
    and "get_server w ''https://markets.leeds.gov.uk/whats-kirkgate'' [] = Response status page"
    and "is_success status"
    and "find_html_events_table BeautifulSoup page = Inr table"
    and "node_at (fs w1) (joinpath (artifacts_dir settings) (html_file_name settings)) = Some (File s)"
    and "universal_newlines s = table"
  shows "main BeautifulSoup settings w =
     (Inr (), w1\<lparr>get_log := get_log w @ [(''https://markets.leeds.gov.uk/whats-kirkgate'', [])],
                logged := logged w @ [''No changes detected in events HTML. Exiting.'']\<rparr>)"
proof -
  let ?w2 = "w1\<lparr>get_log := get_log w1 @ [(''https://markets.leeds.gov.uk/whats-kirkgate'', [])]\<rparr>"
  note f1 = mkdir_frame [OF assms(1)]
  have g: "get_page_html ''https://markets.leeds.gov.uk/whats-kirkgate'' None w1 = (Inr page, ?w2)"
    using assms(2,3) f1 by (simp add: get_page_html_def)
  have m: "file_content_matches_existing (joinpath (artifacts_dir settings) (html_file_name settings)) table ?w2 = Inr True"
    using assms(5,6) by (simp add: file_content_matches_existing_file)
  show ?thesis
    using assms(1,4) g m f1 by (simp add: main_unfold info_def)
qed

lemma main_short_circuit_effects:
  assumes "mkdir (artifacts_dir settings) w = (Inr (), w1)"
    and "get_server w ''https://markets.leeds.gov.uk/whats-kirkgate'' [] = Response status page"
    and "is_success status"
    and "find_html_events_table BeautifulSoup page = Inr table"
    and "node_at (fs w1) (joinpath (artifacts_dir settings) (html_file_name settings)) = Some (File s)"
    and "universal_newlines s = table"
  shows "fst (main BeautifulSoup settings w) = Inr () \<and>
    get_log (snd (main BeautifulSoup settings w)) =
      get_log w @ [(''https://markets.leeds.gov.uk/whats-kirkgate'', [])] \<and>
    post_log (snd (main BeautifulSoup settings w)) = post_log w \<and>
    write_log (snd (main BeautifulSoup settings w)) = write_log w \<and>
    file_at (snd (main BeautifulSoup settings w)) q = file_at w q"
  using mkdir_frame [OF assms(1)] mkdir_file_at [OF assms(1), of q]
  by (simp add: main_short_circuit [OF assms] file_at_def)

text \<open>
  Claim C6 fails on the code. The page has a table cell whose text holds a CRLF line
  break, and the snapshot file holds exactly the table fragment that is extracted again.
  The comparison is made with the text read back in text mode, where the line break has
  become a line feed, so the run does not stop: it writes the snapshot again, calls the
  completion service twice and writes the calendar file.
\<close>

theorem main_reprocesses_crlf_table:
  "find_html_events_table (parser_for crlf_cell_page crlf_cell_soup) crlf_cell_page = Inr crlf_cell_table \<and>
   fs (demo_world with_crlf_cell_snapshot nine_thirty nine_thirty crlf_cell_page [''3'', market_day_reply])
      snapshot_path = Some (File crlf_cell_table) \<and>
   fst (main (parser_for crlf_cell_page crlf_cell_soup) demo_settings
         (demo_world with_crlf_cell_snapshot nine_thirty nine_thirty crlf_cell_page [''3'', market_day_reply])) = Inr () \<and>
   length (post_log (snd (main (parser_for crlf_cell_page crlf_cell_soup) demo_settings
         (demo_world with_crlf_cell_snapshot nine_thirty nine_thirty crlf_cell_page [''3'', market_day_reply])))) = 2 \<and>
   map fst (write_log (snd (main (parser_for crlf_cell_page crlf_cell_soup) demo_settings
         (demo_world with_crlf_cell_snapshot nine_thirty nine_thirty crlf_cell_page [''3'', market_day_reply])))) =
     [snapshot_path, calendar_path]"
  by code_simp

end
